theory Spec2Isabelle
  imports Complex_Main
begin

section \<open>In-memory sorted sets (src/lib/memory-cache/zset.ts)\<close>

text \<open>
  JavaScript numbers that occur as scores and timestamps are millisecond timestamps
  (\<open>Date.now()\<close>); they are modelled as \<open>int\<close>. Costs and multipliers are modelled as
  \<open>real\<close>, so floating-point rounding is outside the model. A range bound may be
  \<open>-Infinity\<close> or \<open>Infinity\<close>.
\<close>

datatype bound = NegInfinity | Num int | PosInfinity

text \<open>\<open>score >= min\<close> and \<open>score <= max\<close> for a finite score.\<close>

fun score_ge :: "int \<Rightarrow> bound \<Rightarrow> bool" where
  "score_ge s NegInfinity = True"
| "score_ge s (Num b) = (b \<le> s)"
| "score_ge s PosInfinity = False"

fun score_le :: "int \<Rightarrow> bound \<Rightarrow> bool" where
  "score_le s NegInfinity = False"
| "score_le s (Num b) = (s \<le> b)"
| "score_le s PosInfinity = True"

text \<open>
  \<open>InMemoryZSet.data\<close> is a \<open>Map<string, Map<string, number>>\<close>. The outer map is only
  read and written by key, so it is a partial function. The inner map is iterated
  (\<open>zset.entries()\<close>), so it is an association list in insertion order. The member type
  is a parameter: the sorted-set operations never look inside a member.
\<close>

type_synonym 'm zset = "('m \<times> int) list"
type_synonym 'm zset_data = "string \<Rightarrow> 'm zset option"

text \<open>\<open>Map.prototype.set\<close>: an existing key keeps its position, a new key goes last.\<close>

fun map_set :: "'m zset \<Rightarrow> 'm \<Rightarrow> int \<Rightarrow> 'm zset" where
  "map_set [] member score = [(member, score)]"
| "map_set ((m, s) # es) member score =
     (if m = member then (m, score) # es else (m, s) # map_set es member score)"

definition zadd :: "string \<Rightarrow> int \<Rightarrow> 'm \<Rightarrow> 'm zset_data \<Rightarrow> nat \<times> 'm zset_data" where
  "zadd key score member data =
     (let zset = (case data key of None \<Rightarrow> [] | Some z \<Rightarrow> z);
          isNew = (map_of zset member = None)
      in ((if isNew then 1 else 0), data(key \<mapsto> map_set zset member score)))"

text \<open>\<open>Array.prototype.slice(start, end)\<close> with its treatment of negative arguments.\<close>

definition js_slice :: "'a list \<Rightarrow> int \<Rightarrow> int \<Rightarrow> 'a list" where
  "js_slice xs start fin =
     (let len = int (length xs);
          k = (if start < 0 then max (len + start) 0 else min start len);
          final = (if fin < 0 then max (len + fin) 0 else min fin len)
      in take (nat (final - k)) (drop (nat k) xs))"

text \<open>
  \<open>zrange\<close> without \<open>withScores\<close> (no caller in the modelled code passes it). The
  entries are sorted by score with the stable \<open>Array.prototype.sort\<close>.
\<close>

definition zrange :: "string \<Rightarrow> int \<Rightarrow> int \<Rightarrow> 'm zset_data \<Rightarrow> 'm list" where
  "zrange key start stop data =
     (case data key of
        None \<Rightarrow> []
      | Some zset \<Rightarrow>
          if zset = [] then []
          else
            (let entries = sort_key snd zset;
                 len = int (length entries);
                 startIdx = (if start < 0 then max 0 (len + start) else start);
                 stopIdx = (if stop < 0 then len + stop else stop);
                 endIdx = min (stopIdx + 1) len
             in map fst (js_slice entries startIdx endIdx)))"

text \<open>
  \<open>zremrangebyscore\<close> deletes every member whose score lies in the closed range
  \<open>[min, max]\<close> and drops the key once its set is empty. Deleting from a \<open>Map\<close> while
  iterating it visits every entry, so the loop is a filter.
\<close>

definition in_range :: "bound \<Rightarrow> bound \<Rightarrow> int \<Rightarrow> bool" where
  "in_range lo hi score = (score_ge score lo \<and> score_le score hi)"

definition zremrangebyscore ::
  "string \<Rightarrow> bound \<Rightarrow> bound \<Rightarrow> 'm zset_data \<Rightarrow> nat \<times> 'm zset_data" where
  "zremrangebyscore key lo hi data =
     (case data key of
        None \<Rightarrow> (0, data)
      | Some zset \<Rightarrow>
          if zset = [] then (0, data)
          else
            (let kept = filter (\<lambda>(member, score). \<not> in_range lo hi score) zset;
                 removed = length zset - length kept
             in (removed, if kept = [] then data(key := None) else data(key \<mapsto> kept))))"

definition zcard :: "string \<Rightarrow> 'm zset_data \<Rightarrow> nat" where
  "zcard key data = (case data key of None \<Rightarrow> 0 | Some zset \<Rightarrow> length zset)"

definition zscore :: "string \<Rightarrow> 'm \<Rightarrow> 'm zset_data \<Rightarrow> int option" where
  "zscore key member data = (case data key of None \<Rightarrow> None | Some zset \<Rightarrow> map_of zset member)"


section \<open>String entries with expiry (InMemoryMap, src/lib/memory-cache/map.ts)\<close>

text \<open>
  A \<open>CacheEntry\<close> is \<open>{value: string, expiry?: number}\<close>. The type of values is a
  parameter: the cost keys hold the decimal rendering of a number, which is modelled by
  the number itself. Every operation that calls \<open>Date.now()\<close> takes the current time
  \<open>now\<close> (milliseconds) as an argument.
\<close>

record 'v CacheEntry =
  entryValue :: 'v
  expiry :: "int option"

type_synonym 'v map_data = "string \<Rightarrow> 'v CacheEntry option"

definition isExpired :: "int \<Rightarrow> 'v CacheEntry \<Rightarrow> bool" where
  "isExpired now entry = (case expiry entry of None \<Rightarrow> False | Some e \<Rightarrow> e \<le> now)"

text \<open>
  The periodic sweep (\<open>setInterval(() => this.cleanup(), 60000)\<close>). Its test is
  \<open>entry.expiry && entry.expiry <= now\<close>, so an expiry of 0 is skipped.
\<close>

definition cleanup :: "int \<Rightarrow> 'v map_data \<Rightarrow> 'v map_data" where
  "cleanup now data =
     (\<lambda>key. case data key of
               None \<Rightarrow> None
             | Some entry \<Rightarrow>
                 (case expiry entry of
                    None \<Rightarrow> Some entry
                  | Some e \<Rightarrow> if e \<noteq> 0 \<and> e \<le> now then None else Some entry))"

definition map_get :: "int \<Rightarrow> string \<Rightarrow> 'v map_data \<Rightarrow> 'v option \<times> 'v map_data" where
  "map_get now key data =
     (case data key of
        None \<Rightarrow> (None, data)
      | Some entry \<Rightarrow>
          if isExpired now entry then (None, data(key := None))
          else (Some (entryValue entry), data))"

definition map_setex :: "int \<Rightarrow> string \<Rightarrow> int \<Rightarrow> 'v \<Rightarrow> 'v map_data \<Rightarrow> 'v map_data" where
  "map_setex now key seconds v data =
     data(key \<mapsto> \<lparr>entryValue = v, expiry = Some (now + seconds * 1000)\<rparr>)"

text \<open>\<open>exists(...keys)\<close> counts the keys that hold an unexpired entry.\<close>

definition map_exists :: "int \<Rightarrow> string list \<Rightarrow> 'v map_data \<Rightarrow> nat" where
  "map_exists now keys data =
     length (filter (\<lambda>key. case data key of
                               None \<Rightarrow> False
                             | Some entry \<Rightarrow> \<not> isExpired now entry) keys)"

definition map_expire :: "int \<Rightarrow> string \<Rightarrow> int \<Rightarrow> 'v map_data \<Rightarrow> nat \<times> 'v map_data" where
  "map_expire now key seconds data =
     (case data key of
        None \<Rightarrow> (0, data)
      | Some entry \<Rightarrow>
          if isExpired now entry then (0, data(key := None))
          else (1, data(key \<mapsto> entry\<lparr>expiry := Some (now + seconds * 1000)\<rparr>)))"

section \<open>The store facade (InMemoryStore, src/lib/memory-cache/index.ts)\<close>

datatype store_status = ready | connecting | ended

record ('m, 'v) InMemoryStore =
  zsetStore :: "'m zset_data"
  mapStore :: "'v map_data"
  status :: store_status

text \<open>
  Each facade method delegates to one of the two inner stores, exactly as in the class:
  the sorted-set methods to \<open>zsetStore\<close>, and \<open>get\<close>, \<open>setex\<close>, \<open>exists\<close> and
  \<open>expire\<close> to \<open>mapStore\<close>.
\<close>

definition store_zadd ::
  "string \<Rightarrow> int \<Rightarrow> 'm \<Rightarrow> ('m, 'v) InMemoryStore \<Rightarrow> nat \<times> ('m, 'v) InMemoryStore" where
  "store_zadd key score member st =
     (let (r, z) = zadd key score member (zsetStore st) in (r, st\<lparr>zsetStore := z\<rparr>))"

definition store_zremrangebyscore ::
  "string \<Rightarrow> bound \<Rightarrow> bound \<Rightarrow> ('m, 'v) InMemoryStore \<Rightarrow> nat \<times> ('m, 'v) InMemoryStore" where
  "store_zremrangebyscore key lo hi st =
     (let (r, z) = zremrangebyscore key lo hi (zsetStore st) in (r, st\<lparr>zsetStore := z\<rparr>))"

definition store_zrange :: "string \<Rightarrow> int \<Rightarrow> int \<Rightarrow> ('m, 'v) InMemoryStore \<Rightarrow> 'm list" where
  "store_zrange key start stop st = zrange key start stop (zsetStore st)"

definition store_zcard :: "string \<Rightarrow> ('m, 'v) InMemoryStore \<Rightarrow> nat" where
  "store_zcard key st = zcard key (zsetStore st)"

definition store_zscore :: "string \<Rightarrow> 'm \<Rightarrow> ('m, 'v) InMemoryStore \<Rightarrow> int option" where
  "store_zscore key member st = zscore key member (zsetStore st)"

definition store_get ::
  "int \<Rightarrow> string \<Rightarrow> ('m, 'v) InMemoryStore \<Rightarrow> 'v option \<times> ('m, 'v) InMemoryStore" where
  "store_get now key st =
     (let (r, m) = map_get now key (mapStore st) in (r, st\<lparr>mapStore := m\<rparr>))"

definition store_setex ::
  "int \<Rightarrow> string \<Rightarrow> int \<Rightarrow> 'v \<Rightarrow> ('m, 'v) InMemoryStore \<Rightarrow> ('m, 'v) InMemoryStore" where
  "store_setex now key seconds v st = st\<lparr>mapStore := map_setex now key seconds v (mapStore st)\<rparr>"

definition store_exists :: "int \<Rightarrow> string list \<Rightarrow> ('m, 'v) InMemoryStore \<Rightarrow> nat" where
  "store_exists now keys st = map_exists now keys (mapStore st)"

definition store_expire ::
  "int \<Rightarrow> string \<Rightarrow> int \<Rightarrow> ('m, 'v) InMemoryStore \<Rightarrow> nat \<times> ('m, 'v) InMemoryStore" where
  "store_expire now key seconds st =
     (let (r, m) = map_expire now key seconds (mapStore st) in (r, st\<lparr>mapStore := m\<rparr>))"

text \<open>The sweep timer belongs to the map store only; the sorted sets have no timer.\<close>

definition store_cleanup :: "int \<Rightarrow> ('m, 'v) InMemoryStore \<Rightarrow> ('m, 'v) InMemoryStore" where
  "store_cleanup now st = st\<lparr>mapStore := cleanup now (mapStore st)\<rparr>"

text \<open>A freshly constructed store: no sorted set, no entry, status \<open>"ready"\<close>.\<close>

definition empty_store :: "('m, 'v) InMemoryStore" where
  "empty_store = \<lparr>zsetStore = (\<lambda>key. None), mapStore = (\<lambda>key. None), status = ready\<rparr>"

text \<open>
  \<open>destroy()\<close> empties both inner stores and sets the status to \<open>"end"\<close>; it is the only
  place where the status is written. The object stays the singleton that
  \<open>getMemoryClient()\<close> returns, and its methods keep working on the emptied stores.
\<close>

definition store_destroy :: "('m, 'v) InMemoryStore \<Rightarrow> ('m, 'v) InMemoryStore" where
  "store_destroy st = st\<lparr>mapStore := (\<lambda>key. None), zsetStore := (\<lambda>key. None), status := ended\<rparr>"

text \<open>
  The callers test their client with \<open>!client || client.status !== "ready"\<close> or with
  \<open>!client\<close> alone, so a client is modelled as an optional store: \<open>None\<close> is a missing
  client. \<open>getMemoryClient()\<close> itself always returns the singleton, so the unavailable
  client it hands out is a present store whose status is not \<open>"ready"\<close>. A client is
  usable when it is present and its status is \<open>"ready"\<close>.
\<close>

definition client_ready :: "('m, 'v) InMemoryStore option \<Rightarrow> bool" where
  "client_ready client = (case client of None \<Rightarrow> False | Some st \<Rightarrow> status st = ready)"

section \<open>Rolling-window scripts (src/lib/memory-cache/scripts/rolling-window.ts)\<close>

text \<open>
  A member of a cost window is the string \<open>`${nowMs}:${cost}`\<close>. It is modelled by the
  pair of the two numbers: two such strings are equal exactly when both numbers are.
  \<open>parseCostFromMember\<close> cuts the member at its first colon, which is the one the
  template wrote (the rendering of \<open>nowMs\<close> has none), and \<open>parseFloat\<close> reads the
  rendering of \<open>cost\<close> back, which yields the cost that was written.
\<close>

datatype cost_member = CostRecord int real

fun parseCostFromMember :: "cost_member \<Rightarrow> real" where
  "parseCostFromMember (CostRecord timestamp cost) = cost"

definition calculateTotalCost :: "(cost_member, 'v) InMemoryStore \<Rightarrow> string \<Rightarrow> real" where
  "calculateTotalCost st key =
     foldl (\<lambda>total record. total + parseCostFromMember record) 0 (store_zrange key 0 (-1) st)"

text \<open>
  The scripts return \<open>String(total)\<close>; the model returns the total. Each script runs
  under one mutex, so it is one atomic step on the store.
\<close>

definition trackCost5hRollingWindow ::
  "(cost_member, 'v) InMemoryStore \<Rightarrow> string \<Rightarrow> real \<Rightarrow> int \<Rightarrow> int
     \<Rightarrow> real \<times> (cost_member, 'v) InMemoryStore" where
  "trackCost5hRollingWindow st key cost nowMs windowMs =
     (let (removed, st1) = store_zremrangebyscore key NegInfinity (Num (nowMs - windowMs)) st;
          (added, st2) = store_zadd key nowMs (CostRecord nowMs cost) st1
      in (calculateTotalCost st2 key, st2))"

definition getCost5hRollingWindow ::
  "(cost_member, 'v) InMemoryStore \<Rightarrow> string \<Rightarrow> int \<Rightarrow> int
     \<Rightarrow> real \<times> (cost_member, 'v) InMemoryStore" where
  "getCost5hRollingWindow st key nowMs windowMs =
     (let (removed, st1) = store_zremrangebyscore key NegInfinity (Num (nowMs - windowMs)) st
      in (calculateTotalCost st1 key, st1))"

definition trackCostDailyRollingWindow ::
  "(cost_member, 'v) InMemoryStore \<Rightarrow> string \<Rightarrow> real \<Rightarrow> int \<Rightarrow> int
     \<Rightarrow> real \<times> (cost_member, 'v) InMemoryStore" where
  "trackCostDailyRollingWindow st key cost nowMs windowMs =
     (let (removed, st1) = store_zremrangebyscore key NegInfinity (Num (nowMs - windowMs)) st;
          (added, st2) = store_zadd key nowMs (CostRecord nowMs cost) st1
      in (calculateTotalCost st2 key, st2))"

definition getCostDailyRollingWindow ::
  "(cost_member, 'v) InMemoryStore \<Rightarrow> string \<Rightarrow> int \<Rightarrow> int
     \<Rightarrow> real \<times> (cost_member, 'v) InMemoryStore" where
  "getCostDailyRollingWindow st key nowMs windowMs =
     (let (removed, st1) = store_zremrangebyscore key NegInfinity (Num (nowMs - windowMs)) st
      in (calculateTotalCost st1 key, st1))"

text \<open>The default window arguments of the scripts and the values the service passes.\<close>

definition window5h :: int where
  "window5h = 5 * 60 * 60 * 1000"

definition window24h :: int where
  "window24h = 24 * 60 * 60 * 1000"

text \<open>Cost events recorded one after the other on one key: \<open>(time, cost)\<close> pairs.\<close>

fun track5h_all ::
  "(cost_member, 'v) InMemoryStore \<Rightarrow> string \<Rightarrow> int \<Rightarrow> (int \<times> real) list
     \<Rightarrow> (cost_member, 'v) InMemoryStore" where
  "track5h_all st key windowMs [] = st"
| "track5h_all st key windowMs ((t, cost) # events) =
     track5h_all (snd (trackCost5hRollingWindow st key cost t windowMs)) key windowMs events"

section \<open>Rendering numbers in keys\<close>

text \<open>
  Keys embed numeric ids through template strings. Ids are integers, whose rendering is
  the decimal numeral with a leading minus sign for negative values.
\<close>

definition digit_char :: "nat \<Rightarrow> char" where
  "digit_char d = ''0123456789'' ! d"

fun show_nat :: "nat \<Rightarrow> string" where
  "show_nat n =
     (if n < 10 then [digit_char n]
      else show_nat (n div 10) @ [digit_char (n mod 10)])"

declare show_nat.simps [simp del]

definition show_int :: "int \<Rightarrow> string" where
  "show_int i = (if i < 0 then CHR ''-'' # show_nat (nat (- i)) else show_nat (nat i))"

section \<open>Pipelines (src/lib/memory-cache/pipeline.ts)\<close>

text \<open>
  A pipeline queues commands and \<open>exec\<close> runs them one after the other against the
  store, each yielding an \<open>[error, result]\<close> pair. The commands are the ones the modelled
  callers queue. No store method raises, so the error slot is always \<open>null\<close>.
\<close>

datatype ('m, 'v) command =
    ZAdd string int 'm
  | ZRemRangeByScore string bound bound
  | ZCard string
  | Exists "string list"
  | Expire string int
  | SetEx string int 'v

datatype reply = IntReply nat | OK

type_synonym pipeline_result = "string option \<times> reply option"

fun exec_command ::
  "int \<Rightarrow> ('m, 'v) command \<Rightarrow> ('m, 'v) InMemoryStore \<Rightarrow> reply \<times> ('m, 'v) InMemoryStore" where
  "exec_command now (ZAdd key score member) st =
     (let (r, st') = store_zadd key score member st in (IntReply r, st'))"
| "exec_command now (ZRemRangeByScore key lo hi) st =
     (let (r, st') = store_zremrangebyscore key lo hi st in (IntReply r, st'))"
| "exec_command now (ZCard key) st = (IntReply (store_zcard key st), st)"
| "exec_command now (Exists keys) st = (IntReply (store_exists now keys st), st)"
| "exec_command now (Expire key seconds) st =
     (let (r, st') = store_expire now key seconds st in (IntReply r, st'))"
| "exec_command now (SetEx key seconds v) st = (OK, store_setex now key seconds v st)"

fun pipeline_exec ::
  "int \<Rightarrow> ('m, 'v) command list \<Rightarrow> ('m, 'v) InMemoryStore
     \<Rightarrow> pipeline_result list \<times> ('m, 'v) InMemoryStore" where
  "pipeline_exec now [] st = ([], st)"
| "pipeline_exec now (cmd # cmds) st =
     (let (r, st1) = exec_command now cmd st;
          (rs, st2) = pipeline_exec now cmds st1
      in ((None, Some r) # rs, st2))"

section \<open>Session script (src/lib/memory-cache/scripts/session-tracker.ts)\<close>

record SessionTrackResult =
  allowed :: bool
  currentCount :: int
  tracked :: bool

definition checkAndTrackSession ::
  "(string, 'v) InMemoryStore \<Rightarrow> string \<Rightarrow> string \<Rightarrow> int \<Rightarrow> int
     \<Rightarrow> SessionTrackResult \<times> (string, 'v) InMemoryStore" where
  "checkAndTrackSession st providerKey sessionId limit now =
     (let ttl = 300000;
          fiveMinutesAgo = now - ttl;
          (removed, st1) = store_zremrangebyscore providerKey NegInfinity (Num fiveMinutesAgo) st;
          existingScore = store_zscore providerKey sessionId st1;
          isTracked = (existingScore \<noteq> None);
          count = int (store_zcard providerKey st1)
      in if limit > 0 \<and> \<not> isTracked \<and> count \<ge> limit
         then (\<lparr>allowed = False, currentCount = count, tracked = False\<rparr>, st1)
         else
           (let (added, st2) = store_zadd providerKey now sessionId st1
            in if isTracked
               then (\<lparr>allowed = True, currentCount = count, tracked = False\<rparr>, st2)
               else (\<lparr>allowed = True, currentCount = count + 1, tracked = True\<rparr>, st2)))"

section \<open>Session tracker (SessionTracker)\<close>

definition SESSION_TTL :: int where
  "SESSION_TTL = 300000"

definition global_sessions_key :: string where
  "global_sessions_key = ''global:active_sessions''"

definition key_sessions_key :: "int \<Rightarrow> string" where
  "key_sessions_key keyId = ''key:'' @ show_int keyId @ '':active_sessions''"

definition provider_sessions_key :: "int \<Rightarrow> string" where
  "provider_sessions_key providerId = ''provider:'' @ show_int providerId @ '':active_sessions''"

definition session_info_key :: "string \<Rightarrow> string" where
  "session_info_key sessionId = ''session:'' @ sessionId @ '':info''"

text \<open>The four commands \<open>trackSession\<close> queues, in order.\<close>

definition trackSession_commands :: "int \<Rightarrow> string \<Rightarrow> int \<Rightarrow> (string, 'v) command list" where
  "trackSession_commands now sessionId keyId =
     [ZAdd global_sessions_key now sessionId,
      Expire global_sessions_key 3600,
      ZAdd (key_sessions_key keyId) now sessionId,
      Expire (key_sessions_key keyId) 3600]"

definition trackSession ::
  "(string, 'v) InMemoryStore option \<Rightarrow> int \<Rightarrow> string \<Rightarrow> int
     \<Rightarrow> (string, 'v) InMemoryStore option" where
  "trackSession client now sessionId keyId =
     (case client of
        None \<Rightarrow> client
      | Some st \<Rightarrow>
          if status st \<noteq> ready then client
          else Some (snd (pipeline_exec now (trackSession_commands now sessionId keyId) st)))"

text \<open>
  \<open>countFromZSet\<close>: trim members older than five minutes, then count the remaining
  session ids whose \<open>session:<id>:info\<close> entry exists.
\<close>

definition countFromZSet ::
  "(string, 'v) InMemoryStore option \<Rightarrow> int \<Rightarrow> string
     \<Rightarrow> int \<times> (string, 'v) InMemoryStore option" where
  "countFromZSet client now key =
     (case client of
        None \<Rightarrow> (0, client)
      | Some st \<Rightarrow>
          if status st \<noteq> ready then (0, client)
          else
            (let fiveMinutesAgo = now - SESSION_TTL;
                 (removed, st1) = store_zremrangebyscore key NegInfinity (Num fiveMinutesAgo) st;
                 sessionIds = store_zrange key 0 (-1) st1
             in if sessionIds = [] then (0, Some st1)
                else
                  (let (results, st2) =
                         pipeline_exec now
                           (map (\<lambda>sessionId. Exists [session_info_key sessionId]) sessionIds) st1
                   in (int (length (filter (\<lambda>result. result = (None, Some (IntReply 1))) results)),
                       Some st2))))"

definition getKeySessionCount ::
  "(string, 'v) InMemoryStore option \<Rightarrow> int \<Rightarrow> int \<Rightarrow> int \<times> (string, 'v) InMemoryStore option" where
  "getKeySessionCount client now keyId =
     (if \<not> client_ready client then (0, client)
      else countFromZSet client now (key_sessions_key keyId))"

definition getProviderSessionCount ::
  "(string, 'v) InMemoryStore option \<Rightarrow> int \<Rightarrow> int \<Rightarrow> int \<times> (string, 'v) InMemoryStore option" where
  "getProviderSessionCount client now providerId =
     (if \<not> client_ready client then (0, client)
      else countFromZSet client now (provider_sessions_key providerId))"

section \<open>Rate limit service (RateLimitService)\<close>

datatype entity_type = KeyEntity | ProviderEntity

datatype period = Period5h | PeriodDaily | PeriodWeekly | PeriodMonthly

datatype DailyResetMode = fixed | rolling

fun entity_name :: "entity_type \<Rightarrow> string" where
  "entity_name KeyEntity = ''key''"
| "entity_name ProviderEntity = ''provider''"

fun period_name :: "period \<Rightarrow> string" where
  "period_name Period5h = ''5h''"
| "period_name PeriodDaily = ''daily''"
| "period_name PeriodWeekly = ''weekly''"
| "period_name PeriodMonthly = ''monthly''"

text \<open>
  \<open>CostLimit\<close> without its display name, which only occurs in the message text.
  \<open>amount\<close> is \<open>number | null\<close>.
\<close>

record CostLimit =
  amount :: "real option"
  period :: period
  resetTime :: "string option"
  resetMode :: "DailyResetMode option"

record Limits =
  limit_5h_usd :: "real option"
  limit_daily_usd :: "real option"
  daily_reset_time :: "string option"
  daily_reset_mode :: "DailyResetMode option"
  limit_weekly_usd :: "real option"
  limit_monthly_usd :: "real option"

text \<open>
  The collaborators the service imports from files that are not part of the modelled
  sources (\<open>./time-utils\<close> and \<open>@/repository/statistics\<close>) are parameters.
  \<open>sumCostInTimeRange\<close> stands for \<open>getTimeRangeForPeriodWithMode\<close> followed by
  \<open>sumKeyCostInTimeRange\<close> or \<open>sumProviderCostInTimeRange\<close>; a rejected promise of the
  durable store is \<open>Inl\<close>.
\<close>

datatype db_error = DbError

record collaborators =
  normalizeResetTime :: "string option \<Rightarrow> string"
  getTTLForPeriodWithMode :: "period \<Rightarrow> string \<Rightarrow> DailyResetMode option \<Rightarrow> int"
  sumCostInTimeRange ::
    "entity_type \<Rightarrow> int \<Rightarrow> period \<Rightarrow> string option \<Rightarrow> DailyResetMode option \<Rightarrow> db_error + real"
  sumUserCostToday :: "int \<Rightarrow> db_error + real"
  getSecondsUntilMidnight :: int

text \<open>The \<open>reason\<close> strings, kept as data: who hit which limit with which numbers.\<close>

datatype reason =
    CostLimitReached entity_type period real real
  | SessionLimitReached entity_type int int
  | ProviderSessionLimitReached int int
  | UserRPMReached int int
  | UserDailyCostReached real real

record CheckResult =
  cr_allowed :: bool
  cr_reason :: "reason option"

definition allow :: CheckResult where
  "allow = \<lparr>cr_allowed = True, cr_reason = None\<rparr>"

definition deny :: "reason \<Rightarrow> CheckResult" where
  "deny r = \<lparr>cr_allowed = False, cr_reason = Some r\<rparr>"

type_synonym cost_client = "(cost_member, real) InMemoryStore option"

text \<open>\<open>String.prototype.replace(":", "")\<close> removes the first colon only.\<close>

fun remove_first_colon :: "string \<Rightarrow> string" where
  "remove_first_colon [] = []"
| "remove_first_colon (c # cs) = (if c = CHR '':'' then cs else c # remove_first_colon cs)"

definition cost_key :: "entity_type \<Rightarrow> int \<Rightarrow> string \<Rightarrow> string" where
  "cost_key ty ident suffix = entity_name ty @ '':'' @ show_int ident @ '':cost_'' @ suffix"

definition periodKey :: "collaborators \<Rightarrow> CostLimit \<Rightarrow> string" where
  "periodKey deps limit =
     (let suffix = remove_first_colon (normalizeResetTime deps (resetTime limit))
      in if period limit = PeriodDaily then period_name (period limit) @ ''_'' @ suffix
         else period_name (period limit))"

definition costLimits_of :: "collaborators \<Rightarrow> Limits \<Rightarrow> CostLimit list" where
  "costLimits_of deps limits =
     (let normalizedDailyReset = normalizeResetTime deps (daily_reset_time limits);
          dailyResetMode = (case daily_reset_mode limits of None \<Rightarrow> fixed | Some m \<Rightarrow> m)
      in [\<lparr>amount = limit_5h_usd limits, period = Period5h, resetTime = None, resetMode = None\<rparr>,
          \<lparr>amount = limit_daily_usd limits, period = PeriodDaily,
             resetTime = Some normalizedDailyReset, resetMode = Some dailyResetMode\<rparr>,
          \<lparr>amount = limit_weekly_usd limits, period = PeriodWeekly, resetTime = None, resetMode = None\<rparr>,
          \<lparr>amount = limit_monthly_usd limits, period = PeriodMonthly, resetTime = None,
             resetMode = None\<rparr>])"

text \<open>
  Cache warming inside \<open>checkCostLimitsFromDatabase\<close>: only a ready client is written;
  a rolling window is warmed only with a positive total.
\<close>

definition warm_cache ::
  "collaborators \<Rightarrow> int \<Rightarrow> int \<Rightarrow> entity_type \<Rightarrow> CostLimit \<Rightarrow> real \<Rightarrow> cost_client \<Rightarrow> cost_client" where
  "warm_cache deps now ident ty limit current client =
     (case client of
        None \<Rightarrow> client
      | Some st \<Rightarrow>
          if status st \<noteq> ready then client
          else if period limit = Period5h
          then (if current > 0
                then Some (snd (trackCost5hRollingWindow st (cost_key ty ident ''5h_rolling'')
                                  current now window5h))
                else client)
          else if period limit = PeriodDaily \<and> resetMode limit = Some rolling
          then (if current > 0
                then Some (snd (trackCostDailyRollingWindow st (cost_key ty ident ''daily_rolling'')
                                  current now window24h))
                else client)
          else
            (let normalized = normalizeResetTime deps (resetTime limit);
                 ttl = getTTLForPeriodWithMode deps (period limit) normalized (resetMode limit)
             in Some (store_setex now (cost_key ty ident (periodKey deps limit)) ttl current st)))"

fun checkCostLimitsFromDatabase ::
  "collaborators \<Rightarrow> int \<Rightarrow> int \<Rightarrow> entity_type \<Rightarrow> CostLimit list \<Rightarrow> cost_client
     \<Rightarrow> (db_error + CheckResult) \<times> cost_client" where
  "checkCostLimitsFromDatabase deps now ident ty [] client = (Inr allow, client)"
| "checkCostLimitsFromDatabase deps now ident ty (limit # rest) client =
     (case amount limit of
        None \<Rightarrow> checkCostLimitsFromDatabase deps now ident ty rest client
      | Some a \<Rightarrow>
          if a \<le> 0 then checkCostLimitsFromDatabase deps now ident ty rest client
          else
            (case sumCostInTimeRange deps ty ident (period limit) (resetTime limit) (resetMode limit) of
               Inl e \<Rightarrow> (Inl e, client)
             | Inr current \<Rightarrow>
                 (let client' = warm_cache deps now ident ty limit current client
                  in if current \<ge> a
                     then (Inr (deny (CostLimitReached ty (period limit) current a)), client')
                     else checkCostLimitsFromDatabase deps now ident ty rest client')))"

text \<open>
  A rejected database query inside \<open>checkCostLimits\<close> is caught by the enclosing
  \<open>catch\<close> blocks, each of which calls \<open>checkCostLimitsFromDatabase\<close> again; the last
  call is outside every \<open>try\<close>, so its rejection reaches the caller.
\<close>

fun fromDatabase_retry ::
  "nat \<Rightarrow> collaborators \<Rightarrow> int \<Rightarrow> int \<Rightarrow> entity_type \<Rightarrow> CostLimit list \<Rightarrow> cost_client
     \<Rightarrow> (db_error + CheckResult) \<times> cost_client" where
  "fromDatabase_retry 0 deps now ident ty costLimits client =
     checkCostLimitsFromDatabase deps now ident ty costLimits client"
| "fromDatabase_retry (Suc n) deps now ident ty costLimits client =
     (case checkCostLimitsFromDatabase deps now ident ty costLimits client of
        (Inl e, client') \<Rightarrow> fromDatabase_retry n deps now ident ty costLimits client'
      | (Inr r, client') \<Rightarrow> (Inr r, client'))"

text \<open>
  The fast path: the loop over the limits on a ready store. \<open>costLimits\<close> is the whole
  list (handed to the database fallback), the second list is what remains to check.
\<close>

fun fastPath ::
  "collaborators \<Rightarrow> int \<Rightarrow> int \<Rightarrow> entity_type \<Rightarrow> CostLimit list \<Rightarrow> CostLimit list
     \<Rightarrow> (cost_member, real) InMemoryStore \<Rightarrow> (db_error + CheckResult) \<times> cost_client" where
  "fastPath deps now ident ty costLimits [] st = (Inr allow, Some st)"
| "fastPath deps now ident ty costLimits (limit # rest) st =
     (case amount limit of
        None \<Rightarrow> fastPath deps now ident ty costLimits rest st
      | Some a \<Rightarrow>
          if a \<le> 0 then fastPath deps now ident ty costLimits rest st
          else if period limit = Period5h
          then
            (let key = cost_key ty ident ''5h_rolling'';
                 (current, st1) = getCost5hRollingWindow st key now window5h
             in if current = 0 \<and> store_exists now [key] st1 = 0
                then fromDatabase_retry 2 deps now ident ty costLimits (Some st1)
                else if current \<ge> a
                then (Inr (deny (CostLimitReached ty (period limit) current a)), Some st1)
                else fastPath deps now ident ty costLimits rest st1)
          else if period limit = PeriodDaily \<and> resetMode limit = Some rolling
          then
            (let key = cost_key ty ident ''daily_rolling'';
                 (current, st1) = getCostDailyRollingWindow st key now window24h
             in if current = 0 \<and> store_exists now [key] st1 = 0
                then fromDatabase_retry 2 deps now ident ty costLimits (Some st1)
                else if current \<ge> a
                then (Inr (deny (CostLimitReached ty (period limit) current a)), Some st1)
                else fastPath deps now ident ty costLimits rest st1)
          else
            (let (cached, st1) = store_get now (cost_key ty ident (periodKey deps limit)) st
             in case cached of
                  None \<Rightarrow> fromDatabase_retry 1 deps now ident ty costLimits (Some st1)
                | Some current \<Rightarrow>
                    if current \<ge> a
                    then (Inr (deny (CostLimitReached ty (period limit) current a)), Some st1)
                    else fastPath deps now ident ty costLimits rest st1))"

definition checkCostLimits ::
  "collaborators \<Rightarrow> cost_client \<Rightarrow> int \<Rightarrow> int \<Rightarrow> entity_type \<Rightarrow> Limits
     \<Rightarrow> (db_error + CheckResult) \<times> cost_client" where
  "checkCostLimits deps client now ident ty limits =
     (let costLimits = costLimits_of deps limits
      in case client of
           None \<Rightarrow> fromDatabase_retry 1 deps now ident ty costLimits client
         | Some st \<Rightarrow>
             if status st = ready then fastPath deps now ident ty costLimits costLimits st
             else fromDatabase_retry 1 deps now ident ty costLimits client)"

text \<open>\<open>checkSessionLimit\<close>: check only, through the session tracker's counts.\<close>

definition checkSessionLimit ::
  "(string, 'v) InMemoryStore option \<Rightarrow> int \<Rightarrow> int \<Rightarrow> entity_type \<Rightarrow> int
     \<Rightarrow> CheckResult \<times> (string, 'v) InMemoryStore option" where
  "checkSessionLimit client now ident ty limit =
     (if limit \<le> 0 then (allow, client)
      else
        (let (count, client') =
               (if ty = KeyEntity then getKeySessionCount client now ident
                else getProviderSessionCount client now ident)
         in if count \<ge> limit then (deny (SessionLimitReached ty count limit), client')
            else (allow, client')))"

record ProviderSessionResult =
  ps_allowed :: bool
  ps_count :: int
  ps_tracked :: bool
  ps_reason :: "reason option"

text \<open>
  \<open>checkAndTrackProviderSession\<close>. The \<open>catch\<close> branch (Fail Open) guards the script,
  which never raises on the in-memory store.
\<close>

definition checkAndTrackProviderSession ::
  "(string, 'v) InMemoryStore option \<Rightarrow> int \<Rightarrow> int \<Rightarrow> string \<Rightarrow> int
     \<Rightarrow> ProviderSessionResult \<times> (string, 'v) InMemoryStore option" where
  "checkAndTrackProviderSession client now providerId sessionId limit =
     (if limit \<le> 0
      then (\<lparr>ps_allowed = True, ps_count = 0, ps_tracked = False, ps_reason = None\<rparr>, client)
      else
        (case client of
           None \<Rightarrow> (\<lparr>ps_allowed = True, ps_count = 0, ps_tracked = False, ps_reason = None\<rparr>, client)
         | Some st \<Rightarrow>
             if status st \<noteq> ready
             then (\<lparr>ps_allowed = True, ps_count = 0, ps_tracked = False, ps_reason = None\<rparr>, client)
             else
               (let key = provider_sessions_key providerId;
                    (result, st') = checkAndTrackSession st key sessionId limit now
                in if \<not> allowed result
                   then (\<lparr>ps_allowed = False, ps_count = currentCount result, ps_tracked = False,
                           ps_reason = Some (ProviderSessionLimitReached (currentCount result) limit)\<rparr>,
                         Some st')
                   else (\<lparr>ps_allowed = True, ps_count = currentCount result,
                           ps_tracked = tracked result, ps_reason = None\<rparr>, Some st'))))"

text \<open>
  A run of calls for one provider, each with its session id and its \<open>Date.now()\<close>. The
  script holds a mutex, so concurrent callers are served in some order, one at a time.
\<close>

fun provider_session_calls ::
  "(string, 'v) InMemoryStore option \<Rightarrow> int \<Rightarrow> int \<Rightarrow> (string \<times> int) list
     \<Rightarrow> (ProviderSessionResult \<times> (string, 'v) InMemoryStore option) list" where
  "provider_session_calls client providerId limit [] = []"
| "provider_session_calls client providerId limit ((sessionId, now) # calls) =
     (let (result, client') = checkAndTrackProviderSession client now providerId sessionId limit
      in (result, client') # provider_session_calls client' providerId limit calls)"

definition client_zcard :: "string \<Rightarrow> ('m, 'v) InMemoryStore option \<Rightarrow> nat" where
  "client_zcard key client = (case client of None \<Rightarrow> 0 | Some st \<Rightarrow> store_zcard key st)"

text \<open>
  \<open>checkUserRPM\<close>. A member of the request window is \<open>`${now}:${Math.random()}`\<close>,
  modelled by the pair; \<open>random\<close> is the value \<open>Math.random()\<close> returns.
\<close>

datatype rpm_member = RpmRecord int real

record RpmResult =
  rpm_allowed :: bool
  rpm_reason :: "reason option"
  rpm_current :: "int option"

definition rpm_key :: "int \<Rightarrow> string" where
  "rpm_key userId = ''user:'' @ show_int userId @ '':rpm_window''"

definition checkUserRPM ::
  "(rpm_member, 'v) InMemoryStore option \<Rightarrow> int \<Rightarrow> real \<Rightarrow> int \<Rightarrow> int
     \<Rightarrow> RpmResult \<times> (rpm_member, 'v) InMemoryStore option" where
  "checkUserRPM client now random userId rpmLimit =
     (if rpmLimit \<le> 0
      then (\<lparr>rpm_allowed = True, rpm_reason = None, rpm_current = None\<rparr>, client)
      else
        (case client of
           None \<Rightarrow> (\<lparr>rpm_allowed = True, rpm_reason = None, rpm_current = None\<rparr>, client)
         | Some st \<Rightarrow>
             (let key = rpm_key userId;
                  oneMinuteAgo = now - 60000;
                  (results, st1) =
                     pipeline_exec now [ZRemRangeByScore key NegInfinity (Num oneMinuteAgo), ZCard key] st;
                  count = (case results of
                             [r0, (None, Some (IntReply n))] \<Rightarrow> int n
                           | _ \<Rightarrow> 0)
              in if count \<ge> rpmLimit
                 then (\<lparr>rpm_allowed = False, rpm_reason = Some (UserRPMReached count rpmLimit),
                         rpm_current = Some count\<rparr>, Some st1)
                 else
                   (let (results2, st2) =
                          pipeline_exec now [ZAdd key now (RpmRecord now random), Expire key 120] st1
                    in (\<lparr>rpm_allowed = True, rpm_reason = None, rpm_current = Some (count + 1)\<rparr>,
                        Some st2)))))"

text \<open>\<open>checkUserDailyCost\<close>: every exception inside its \<open>try\<close> ends in Fail Open.\<close>

record DailyCostResult =
  dc_allowed :: bool
  dc_reason :: "reason option"
  dc_current :: "real option"

definition user_daily_cost_key :: "int \<Rightarrow> string" where
  "user_daily_cost_key userId = ''user:'' @ show_int userId @ '':daily_cost''"

definition dailyCostVerdict :: "real \<Rightarrow> real \<Rightarrow> DailyCostResult" where
  "dailyCostVerdict currentCost dailyLimitUsd =
     (if currentCost \<ge> dailyLimitUsd
      then \<lparr>dc_allowed = False, dc_reason = Some (UserDailyCostReached currentCost dailyLimitUsd),
             dc_current = Some currentCost\<rparr>
      else \<lparr>dc_allowed = True, dc_reason = None, dc_current = Some currentCost\<rparr>)"

definition checkUserDailyCost ::
  "collaborators \<Rightarrow> ('m, real) InMemoryStore option \<Rightarrow> int \<Rightarrow> int \<Rightarrow> real
     \<Rightarrow> DailyCostResult \<times> ('m, real) InMemoryStore option" where
  "checkUserDailyCost deps client now userId dailyLimitUsd =
     (if dailyLimitUsd \<le> 0
      then (\<lparr>dc_allowed = True, dc_reason = None, dc_current = None\<rparr>, client)
      else
        (let key = user_daily_cost_key userId
         in case client of
              Some st \<Rightarrow>
                (let (cached, st1) = store_get now key st
                 in case cached of
                      Some currentCost \<Rightarrow> (dailyCostVerdict currentCost dailyLimitUsd, Some st1)
                    | None \<Rightarrow>
                        (case sumUserCostToday deps userId of
                           Inl e \<Rightarrow>
                             (\<lparr>dc_allowed = True, dc_reason = None, dc_current = None\<rparr>, Some st1)
                         | Inr currentCost \<Rightarrow>
                             (dailyCostVerdict currentCost dailyLimitUsd,
                              Some (store_setex now key (getSecondsUntilMidnight deps) currentCost st1))))
            | None \<Rightarrow>
                (case sumUserCostToday deps userId of
                   Inl e \<Rightarrow> (\<lparr>dc_allowed = True, dc_reason = None, dc_current = None\<rparr>, client)
                 | Inr currentCost \<Rightarrow> (dailyCostVerdict currentCost dailyLimitUsd, client))))"

section \<open>Endpoints and their health (EndpointHealthTracker, repository/provider-endpoint.ts)\<close>

datatype EndpointHealthStatus = healthy | degraded | unhealthy | unknown

text \<open>
  A row of the endpoint table. Timestamps (\<open>Date\<close>) are milliseconds. The field \<open>id\<close>
  is called \<open>endpointId\<close>, \<open>name\<close> is \<open>endpointName\<close>.
\<close>

record ProviderEndpoint =
  endpointId :: int
  providerId :: int
  endpointName :: string
  url :: string
  apiKey :: "string option"
  priority :: int
  weight :: int
  isEnabled :: bool
  healthStatus :: EndpointHealthStatus
  consecutiveFailures :: int
  lastFailureTime :: "int option"
  lastSuccessTime :: "int option"
  updatedAt :: int

text \<open>
  The table, by primary key. A row's id is a value of the \<open>serial\<close> column \<open>id\<close>, and
  its streak a value of the \<open>integer\<close> column \<open>consecutive_failures\<close>.
\<close>

type_synonym endpoint_table = "int \<Rightarrow> ProviderEndpoint option"

text \<open>The optional fields of the \<open>health\<close> argument of \<open>updateEndpointHealth\<close>.\<close>

record HealthUpdate =
  newConsecutiveFailures :: "int option"
  newLastFailureTime :: "int option"
  newLastSuccessTime :: "int option"
  newHealthStatus :: "EndpointHealthStatus option"

text \<open>
  The column \<open>consecutive_failures\<close> of the table \<open>provider_endpoints\<close> is declared
  \<open>integer\<close> (drizzle/0034_round_the_fury.sql): it holds 32-bit signed values, and the
  database rejects a statement that carries a value outside that range.
\<close>

definition fits_integer_column :: "int \<Rightarrow> bool" where
  "fits_integer_column n = (- 2147483648 \<le> n \<and> n \<le> 2147483647)"

datatype endpoint_error = EndpointNotFound int | IntegerOutOfRange int

text \<open>
  \<open>updateEndpointHealth\<close> writes the fields that are given and \<open>updatedAt\<close> to the row
  with this id. The promise is rejected when the database refuses the statement, which
  it does for a streak that does not fit the column, and the function throws when no row
  was updated.
\<close>

definition updateEndpointHealth ::
  "int \<Rightarrow> HealthUpdate \<Rightarrow> int \<Rightarrow> endpoint_table \<Rightarrow> endpoint_error + endpoint_table" where
  "updateEndpointHealth ident health now db =
     (case (case newConsecutiveFailures health of
              None \<Rightarrow> None
            | Some n \<Rightarrow> if fits_integer_column n then None else Some n) of
        Some n \<Rightarrow> Inl (IntegerOutOfRange n)
      | None \<Rightarrow>
          (case db ident of
             None \<Rightarrow> Inl (EndpointNotFound ident)
           | Some row \<Rightarrow>
               Inr (db(ident \<mapsto> row\<lparr>
                 consecutiveFailures :=
                   (case newConsecutiveFailures health of
                      None \<Rightarrow> consecutiveFailures row
                    | Some n \<Rightarrow> n),
                 lastFailureTime :=
                   (case newLastFailureTime health of None \<Rightarrow> lastFailureTime row | Some t \<Rightarrow> Some t),
                 lastSuccessTime :=
                   (case newLastSuccessTime health of None \<Rightarrow> lastSuccessTime row | Some t \<Rightarrow> Some t),
                 healthStatus :=
                   (case newHealthStatus health of None \<Rightarrow> healthStatus row | Some h \<Rightarrow> h),
                 updatedAt := now\<rparr>))))"

definition FAILURE_THRESHOLD :: int where
  "FAILURE_THRESHOLD = 3"

definition DEGRADED_THRESHOLD :: int where
  "DEGRADED_THRESHOLD = 1"

definition recordSuccess :: "int \<Rightarrow> int \<Rightarrow> endpoint_table \<Rightarrow> endpoint_error + endpoint_table" where
  "recordSuccess ident now db =
     (if ident = 0 then Inr db
      else updateEndpointHealth ident
             \<lparr>newConsecutiveFailures = Some 0, newLastFailureTime = None,
              newLastSuccessTime = Some now, newHealthStatus = Some healthy\<rparr> now db)"

definition recordFailure ::
  "int \<Rightarrow> int \<Rightarrow> int \<Rightarrow> endpoint_table \<Rightarrow> endpoint_error + (EndpointHealthStatus \<times> endpoint_table)" where
  "recordFailure ident currentFailures now db =
     (if ident = 0 then Inr (healthy, db)
      else
        (let newFailures = currentFailures + 1;
             status' = (if newFailures \<ge> FAILURE_THRESHOLD then unhealthy
                        else if newFailures \<ge> DEGRADED_THRESHOLD then degraded
                        else healthy)
         in case updateEndpointHealth ident
                   \<lparr>newConsecutiveFailures = Some newFailures, newLastFailureTime = Some now,
                    newLastSuccessTime = None, newHealthStatus = Some status'\<rparr> now db of
              Inl e \<Rightarrow> Inl e
            | Inr db' \<Rightarrow> Inr (status', db')))"

text \<open>
  The caller passes the endpoint's stored streak as \<open>currentFailures\<close>. A run of
  failures on one endpoint, each call reading the streak the previous one stored,
  yields the list of returned statuses and the final table.
\<close>

fun recordFailures ::
  "int \<Rightarrow> int list \<Rightarrow> endpoint_table \<Rightarrow> endpoint_error + (EndpointHealthStatus list \<times> endpoint_table)" where
  "recordFailures ident [] db = Inr ([], db)"
| "recordFailures ident (now # instants) db =
     (case db ident of
        None \<Rightarrow> Inl (EndpointNotFound ident)
      | Some row \<Rightarrow>
          (case recordFailure ident (consecutiveFailures row) now db of
             Inl e \<Rightarrow> Inl e
           | Inr (s, db') \<Rightarrow>
               (case recordFailures ident instants db' of
                  Inl e \<Rightarrow> Inl e
                | Inr (ss, db'') \<Rightarrow> Inr (s # ss, db''))))"

section \<open>Endpoint selection (src/lib/endpoint-selector.ts)\<close>

datatype EndpointSelectionStrategy = failover | round_robin | random_pick | weighted

text \<open>The fields of \<open>Provider\<close> the selector reads.\<close>

record Provider =
  provider_id :: int
  provider_name :: string
  provider_url :: string
  provider_key :: string
  useMultipleEndpoints :: bool
  endpointSelectionStrategy :: "EndpointSelectionStrategy option"

record ResolvedEndpoint =
  resolvedId :: int
  resolvedName :: string
  resolvedUrl :: string
  resolvedApiKey :: string
  resolvedPriority :: int
  resolvedWeight :: int
  resolvedHealthStatus :: EndpointHealthStatus
  resolvedConsecutiveFailures :: int

text \<open>\<open>ep.apiKey || provider.key\<close>: a null or empty key falls back to the provider's.\<close>

definition resolve :: "Provider \<Rightarrow> ProviderEndpoint \<Rightarrow> ResolvedEndpoint" where
  "resolve provider ep =
     \<lparr>resolvedId = endpointId ep,
      resolvedName = endpointName ep,
      resolvedUrl = url ep,
      resolvedApiKey = (case apiKey ep of
                          None \<Rightarrow> provider_key provider
                        | Some k \<Rightarrow> if k = [] then provider_key provider else k),
      resolvedPriority = priority ep,
      resolvedWeight = weight ep,
      resolvedHealthStatus = healthStatus ep,
      resolvedConsecutiveFailures = consecutiveFailures ep\<rparr>"

definition is_available :: "int list option \<Rightarrow> ProviderEndpoint \<Rightarrow> bool" where
  "is_available excludeEndpointIds ep =
     (isEnabled ep \<and> healthStatus ep \<noteq> unhealthy \<and>
      \<not> (case excludeEndpointIds of None \<Rightarrow> False | Some ids \<Rightarrow> endpointId ep \<in> set ids))"

definition availableEndpoints ::
  "Provider \<Rightarrow> int list option \<Rightarrow> ProviderEndpoint list \<Rightarrow> ResolvedEndpoint list" where
  "availableEndpoints provider excludeEndpointIds allEndpoints =
     map (resolve provider) (filter (is_available excludeEndpointIds) allEndpoints)"

text \<open>
  \<open>sorted[0]\<close> of a stable ascending sort by priority; \<open>undefined\<close> on an empty array is
  \<open>None\<close>.
\<close>

definition selectFailover :: "ResolvedEndpoint list \<Rightarrow> ResolvedEndpoint option" where
  "selectFailover endpoints =
     (case sort_key resolvedPriority endpoints of [] \<Rightarrow> None | e # rest \<Rightarrow> Some e)"

text \<open>An array read \<open>xs[i]\<close>: \<open>undefined\<close> outside the array.\<close>

definition js_index :: "'a list \<Rightarrow> int \<Rightarrow> 'a option" where
  "js_index xs i = (if 0 \<le> i \<and> i < int (length xs) then Some (xs ! nat i) else None)"

type_synonym round_robin_index = "int \<Rightarrow> nat option"

definition selectRoundRobin ::
  "int \<Rightarrow> ResolvedEndpoint list \<Rightarrow> round_robin_index
     \<Rightarrow> ResolvedEndpoint option \<times> round_robin_index" where
  "selectRoundRobin pid endpoints rr =
     (let currentIndex = (case rr pid of None \<Rightarrow> 0 | Some i \<Rightarrow> i);
          selected = (if endpoints = [] then None
                      else js_index endpoints (int (currentIndex mod length endpoints)))
      in (selected, rr(pid \<mapsto> currentIndex + 1)))"

text \<open>\<open>u\<close> is the value of \<open>Math.random()\<close>, a number in \<open>[0, 1)\<close>.\<close>

definition selectRandom :: "ResolvedEndpoint list \<Rightarrow> real \<Rightarrow> ResolvedEndpoint option" where
  "selectRandom endpoints u = js_index endpoints \<lfloor>u * real (length endpoints)\<rfloor>"

text \<open>The cumulative-subtraction loop of \<open>selectWeighted\<close>; \<open>None\<close> when it runs out.\<close>

fun weighted_walk :: "real \<Rightarrow> ResolvedEndpoint list \<Rightarrow> ResolvedEndpoint option" where
  "weighted_walk r [] = None"
| "weighted_walk r (endpoint # rest) =
     (let r' = r - real_of_int (resolvedWeight endpoint)
      in if r' \<le> 0 then Some endpoint else weighted_walk r' rest)"

definition selectWeighted :: "ResolvedEndpoint list \<Rightarrow> real \<Rightarrow> ResolvedEndpoint option" where
  "selectWeighted endpoints u =
     (let totalWeight = foldl (\<lambda>total ep. total + resolvedWeight ep) 0 endpoints;
          r = u * real_of_int totalWeight
      in case weighted_walk r endpoints of
           Some endpoint \<Rightarrow> Some endpoint
         | None \<Rightarrow> js_index endpoints (int (length endpoints) - 1))"

definition defaultEndpoint :: "Provider \<Rightarrow> ResolvedEndpoint" where
  "defaultEndpoint provider =
     \<lparr>resolvedId = 0, resolvedName = ''default'', resolvedUrl = provider_url provider,
      resolvedApiKey = provider_key provider, resolvedPriority = 0, resolvedWeight = 1,
      resolvedHealthStatus = healthy, resolvedConsecutiveFailures = 0\<rparr>"

text \<open>
  \<open>allEndpoints\<close> is what \<open>findEndpointsByProviderId(provider.id)\<close> returns. An absent
  strategy is failover.
\<close>

definition selectEndpoint ::
  "Provider \<Rightarrow> int list option \<Rightarrow> ProviderEndpoint list \<Rightarrow> round_robin_index \<Rightarrow> real
     \<Rightarrow> ResolvedEndpoint option \<times> round_robin_index" where
  "selectEndpoint provider excludeEndpointIds allEndpoints rr u =
     (if \<not> useMultipleEndpoints provider then (Some (defaultEndpoint provider), rr)
      else
        (let available = availableEndpoints provider excludeEndpointIds allEndpoints
         in if available = [] then (None, rr)
            else
              (case endpointSelectionStrategy provider of
                 None \<Rightarrow> (selectFailover available, rr)
               | Some failover \<Rightarrow> (selectFailover available, rr)
               | Some round_robin \<Rightarrow> selectRoundRobin (provider_id provider) available rr
               | Some random_pick \<Rightarrow> (selectRandom available u, rr)
               | Some weighted \<Rightarrow> (selectWeighted available u, rr))))"

section \<open>Cost multiplier (src/lib/utils/cost-multiplier.ts)\<close>

text \<open>
  Strings are ASCII. \<open>validateTimeFormat\<close> is the regular expression
  \<open>^([0-1]\d|2[0-3]):([0-5]\d)$\<close>.
\<close>

definition char_code :: "char \<Rightarrow> nat" where
  "char_code c = of_char c"

definition is_digit :: "char \<Rightarrow> bool" where
  "is_digit c = (48 \<le> char_code c \<and> char_code c \<le> 57)"

definition digit_value :: "char \<Rightarrow> int" where
  "digit_value c = int (char_code c) - 48"

fun validateTimeFormat :: "string \<Rightarrow> bool" where
  "validateTimeFormat [h1, h2, c, m1, m2] =
     (((h1 = CHR ''0'' \<or> h1 = CHR ''1'') \<and> is_digit h2
        \<or> h1 = CHR ''2'' \<and> 48 \<le> char_code h2 \<and> char_code h2 \<le> 51)
      \<and> c = CHR '':''
      \<and> 48 \<le> char_code m1 \<and> char_code m1 \<le> 53 \<and> is_digit m2)"
| "validateTimeFormat s = False"

text \<open>\<open>timeStr.split(":").map(Number)\<close> on a validated string, as minutes of the day.\<close>

fun minutes_of :: "string \<Rightarrow> int" where
  "minutes_of [h1, h2, c, m1, m2] =
     (10 * digit_value h1 + digit_value h2) * 60 + (10 * digit_value m1 + digit_value m2)"
| "minutes_of s = 0"

text \<open>
  \<open>matchWildcard\<close> builds a regular expression: every regex metacharacter is escaped,
  \<open>*\<close> becomes \<open>.*\<close> and \<open>?\<close> becomes \<open>.\<close>, anchored at both ends, with flag \<open>i\<close>.
  The dot does not match a line terminator; letters match regardless of case.
\<close>

definition is_line_terminator :: "char \<Rightarrow> bool" where
  "is_line_terminator c = (c = CHR 0x0A \<or> c = CHR 0x0D)"

definition upper :: "char \<Rightarrow> char" where
  "upper c = (if 97 \<le> char_code c \<and> char_code c \<le> 122 then char_of (char_code c - 32) else c)"

fun matchWildcard :: "string \<Rightarrow> string \<Rightarrow> bool" where
  "matchWildcard [] input = (input = [])"
| "matchWildcard (p # ps) [] = (p = CHR ''*'' \<and> matchWildcard ps [])"
| "matchWildcard (p # ps) (c # cs) =
     (if p = CHR ''*''
      then matchWildcard ps (c # cs) \<or> (\<not> is_line_terminator c \<and> matchWildcard (p # ps) cs)
      else if p = CHR ''?''
      then \<not> is_line_terminator c \<and> matchWildcard ps cs
      else upper p = upper c \<and> matchWildcard ps cs)"

record TimePeriodConfig =
  startTime :: string
  endTime :: string
  weekdays :: "int list option"

text \<open>
  The platform's time-zone support (\<open>Intl.DateTimeFormat\<close>, \<open>Date.toLocaleString\<close>) is a
  parameter: whether a zone name is valid, and the local wall-clock reading of an
  instant in a zone; \<open>localDay\<close> is \<open>getDay()\<close>, with 0 for Sunday.
\<close>

record LocalTime =
  localHours :: int
  localMinutes :: int
  localDay :: int

record platform =
  isValidTimezone :: "string \<Rightarrow> bool"
  toLocalTime :: "int \<Rightarrow> string \<Rightarrow> LocalTime"

fun period_loop :: "int \<Rightarrow> int \<Rightarrow> TimePeriodConfig list \<Rightarrow> bool" where
  "period_loop currentMinutes currentWeekday [] = False"
| "period_loop currentMinutes currentWeekday (p # rest) =
     (if \<not> validateTimeFormat (startTime p) \<or> \<not> validateTimeFormat (endTime p)
      then period_loop currentMinutes currentWeekday rest
      else if (case weekdays p of
                 None \<Rightarrow> False
               | Some days \<Rightarrow> days \<noteq> [] \<and> currentWeekday \<notin> set days)
      then period_loop currentMinutes currentWeekday rest
      else
        (let startMinutes = minutes_of (startTime p);
             endMinutes = minutes_of (endTime p)
         in if startMinutes \<le> endMinutes
            then (if currentMinutes \<ge> startMinutes \<and> currentMinutes < endMinutes then True
                  else period_loop currentMinutes currentWeekday rest)
            else (if currentMinutes \<ge> startMinutes \<or> currentMinutes < endMinutes then True
                  else period_loop currentMinutes currentWeekday rest)))"

definition isWithinTimePeriod :: "platform \<Rightarrow> TimePeriodConfig list \<Rightarrow> int \<Rightarrow> string \<Rightarrow> bool" where
  "isWithinTimePeriod pf timePeriods currentTime timezone =
     (if timePeriods = [] then False
      else
        (let tz = (if isValidTimezone pf timezone then timezone else ''UTC'');
             localTime = toLocalTime pf currentTime tz;
             currentWeekday = (if localDay localTime = 0 then 7 else localDay localTime);
             currentMinutes = localHours localTime * 60 + localMinutes localTime
         in period_loop currentMinutes currentWeekday timePeriods))"

datatype CostRuleType = model_type | time_period_type

datatype CostMultiplierStrategy = highest_priority | multiply

text \<open>
  A cost rule. \<open>multiplier\<close> is the number \<open>parseFloat(rule.multiplier)\<close> reads from the
  stored decimal string.
\<close>

record ProviderCostRule =
  ruleId :: int
  ruleProviderId :: int
  ruleType :: CostRuleType
  ruleName :: string
  multiplier :: real
  rulePriority :: int
  modelPattern :: "string option"
  timePeriods :: "TimePeriodConfig list option"
  ruleEnabled :: bool

record CostMultiplierContext =
  model :: string
  requestTime :: int
  timezone :: string

record AppliedRule =
  appliedRuleId :: int
  appliedRuleName :: string
  appliedRuleType :: CostRuleType
  appliedMultiplier :: real
  appliedPriority :: int

record CostMultiplierResult =
  finalMultiplier :: real
  appliedRules :: "AppliedRule list"
  baseMultiplier :: real

definition applied :: "ProviderCostRule \<Rightarrow> AppliedRule" where
  "applied rule =
     \<lparr>appliedRuleId = ruleId rule, appliedRuleName = ruleName rule,
      appliedRuleType = ruleType rule, appliedMultiplier = multiplier rule,
      appliedPriority = rulePriority rule\<rparr>"

definition rule_matches :: "platform \<Rightarrow> CostMultiplierContext \<Rightarrow> ProviderCostRule \<Rightarrow> bool" where
  "rule_matches pf context rule =
     (case ruleType rule of
        model_type \<Rightarrow>
          (case modelPattern rule of
             None \<Rightarrow> False
           | Some pattern \<Rightarrow> pattern \<noteq> [] \<and> matchWildcard pattern (model context))
      | time_period_type \<Rightarrow>
          (case timePeriods rule of
             None \<Rightarrow> False
           | Some periods \<Rightarrow>
               isWithinTimePeriod pf periods (requestTime context) (timezone context)))"

definition matchedRules ::
  "platform \<Rightarrow> ProviderCostRule list \<Rightarrow> CostMultiplierContext \<Rightarrow> ProviderCostRule list" where
  "matchedRules pf rules context = filter (rule_matches pf context) (filter ruleEnabled rules)"

definition calculateFinalMultiplier ::
  "platform \<Rightarrow> real \<Rightarrow> ProviderCostRule list \<Rightarrow> CostMultiplierContext \<Rightarrow> CostMultiplierStrategy
     \<Rightarrow> CostMultiplierResult" where
  "calculateFinalMultiplier pf base rules context strategy =
     (let matched = matchedRules pf rules context
      in if matched = []
         then \<lparr>finalMultiplier = base, appliedRules = [], baseMultiplier = base\<rparr>
         else if strategy = highest_priority
         then
           (case sort_key (\<lambda>rule. - rulePriority rule) matched of
              [] \<Rightarrow> \<lparr>finalMultiplier = base, appliedRules = [], baseMultiplier = base\<rparr>
            | highestPriorityRule # rest \<Rightarrow>
                \<lparr>finalMultiplier = base * multiplier highestPriorityRule,
                 appliedRules = [applied highestPriorityRule],
                 baseMultiplier = base\<rparr>)
         else
           \<lparr>finalMultiplier = base * foldl (\<lambda>combined rule. combined * multiplier rule) 1 matched,
            appliedRules = map applied matched,
            baseMultiplier = base\<rparr>)"

section \<open>Views used in the statements and proofs\<close>

text \<open>The entries of one sorted set, a missing key read as the empty set.\<close>

definition entries_of :: "string \<Rightarrow> 'm zset_data \<Rightarrow> 'm zset" where
  "entries_of key data = (case data key of None \<Rightarrow> [] | Some zset \<Rightarrow> zset)"

text \<open>The entry a tracked cost event \<open>(time, cost)\<close> leaves in a window.\<close>

definition encode_event :: "int \<times> real \<Rightarrow> cost_member \<times> int" where
  "encode_event e = (CostRecord (fst e) (snd e), fst e)"

text \<open>
  The verdicts of \<open>n\<close> admission calls with fresh session ids against a set that holds
  \<open>k\<close> live members, under limit \<open>N\<close>: admit while there is room, then reject.
\<close>

definition verdicts :: "nat \<Rightarrow> nat \<Rightarrow> nat \<Rightarrow> bool list" where
  "verdicts N k n = replicate (min (N - k) n) True @ replicate (n - (N - k)) False"

text \<open>
  What the durable store alone says about a list of cost limits, with no cache
  involved: the first positive limit whose aggregate reaches it denies, a failed query
  is an error, otherwise the request is allowed.
\<close>

fun database_verdict ::
  "collaborators \<Rightarrow> int \<Rightarrow> entity_type \<Rightarrow> CostLimit list \<Rightarrow> db_error + CheckResult" where
  "database_verdict deps ident ty [] = Inr allow"
| "database_verdict deps ident ty (limit # rest) =
     (case amount limit of
        None \<Rightarrow> database_verdict deps ident ty rest
      | Some a \<Rightarrow>
          if a \<le> 0 then database_verdict deps ident ty rest
          else
            (case sumCostInTimeRange deps ty ident (period limit) (resetTime limit) (resetMode limit) of
               Inl e \<Rightarrow> Inl e
             | Inr current \<Rightarrow>
                 if current \<ge> a then Inr (deny (CostLimitReached ty (period limit) current a))
                 else database_verdict deps ident ty rest))"

section \<open>Example data\<close>

text \<open>An enabled endpoint of provider 1 with the given id, priority, weight and health.\<close>

definition example_endpoint :: "int \<Rightarrow> int \<Rightarrow> int \<Rightarrow> EndpointHealthStatus \<Rightarrow> ProviderEndpoint" where
  "example_endpoint ident prio w h =
     \<lparr>endpointId = ident, providerId = 1, endpointName = ''endpoint'',
      url = ''https://upstream.example'', apiKey = None, priority = prio, weight = w,
      isEnabled = True, healthStatus = h, consecutiveFailures = 0,
      lastFailureTime = None, lastSuccessTime = None, updatedAt = 0\<rparr>"

definition example_provider :: "EndpointSelectionStrategy option \<Rightarrow> Provider" where
  "example_provider strategy =
     \<lparr>provider_id = 1, provider_name = ''provider'', provider_url = ''https://provider.example'',
      provider_key = ''sk-provider'', useMultipleEndpoints = True,
      endpointSelectionStrategy = strategy\<rparr>"

text \<open>The two rules of the cost multiplier example.\<close>

definition example_model_rule :: ProviderCostRule where
  "example_model_rule =
     \<lparr>ruleId = 1, ruleProviderId = 1, ruleType = model_type, ruleName = ''sonnet'',
      multiplier = 1.5, rulePriority = 1, modelPattern = Some ''claude-3-5-*'',
      timePeriods = None, ruleEnabled = True\<rparr>"

definition example_night_rule :: ProviderCostRule where
  "example_night_rule =
     \<lparr>ruleId = 2, ruleProviderId = 1, ruleType = time_period_type, ruleName = ''night'',
      multiplier = 2.0, rulePriority = 2, modelPattern = None,
      timePeriods = Some [\<lparr>startTime = ''22:00'', endTime = ''06:00'', weekdays = None\<rparr>],
      ruleEnabled = True\<rparr>"

text \<open>
  The request's local wall-clock time, in the rule's time zone (UTC when the zone name is
  invalid), reads \<open>h:m\<close>.
\<close>

definition at_local_time :: "platform \<Rightarrow> CostMultiplierContext \<Rightarrow> int \<Rightarrow> int \<Rightarrow> bool" where
  "at_local_time pf context h m =
     (let tz = (if isValidTimezone pf (timezone context) then timezone context else ''UTC'');
          localTime = toLocalTime pf (requestTime context) tz
      in localHours localTime = h \<and> localMinutes localTime = m)"

text \<open>A platform on which every instant reads \<open>h:m\<close> on a Wednesday in every zone.\<close>

definition fixed_clock :: "int \<Rightarrow> int \<Rightarrow> platform" where
  "fixed_clock h m =
     \<lparr>isValidTimezone = (\<lambda>tz. True),
      toLocalTime = (\<lambda>t tz. \<lparr>localHours = h, localMinutes = m, localDay = 3\<rparr>)\<rparr>"

definition example_context :: "string \<Rightarrow> CostMultiplierContext" where
  "example_context m = \<lparr>model = m, requestTime = 0, timezone = ''UTC''\<rparr>"

text \<open>
  Collaborators whose durable store answers every aggregate query with \<open>answer\<close>;
  reset times default to midnight and every TTL is one hour.
\<close>

definition example_collaborators :: "db_error + real \<Rightarrow> collaborators" where
  "example_collaborators answer =
     \<lparr>normalizeResetTime = (\<lambda>t. case t of None \<Rightarrow> ''00:00'' | Some s \<Rightarrow> s),
      getTTLForPeriodWithMode = (\<lambda>p t m. 3600),
      sumCostInTimeRange = (\<lambda>ty ident p t m. answer),
      sumUserCostToday = (\<lambda>userId. answer),
      getSecondsUntilMidnight = 3600\<rparr>"

text \<open>The singleton after \<open>destroy()\<close>: present, empty, status \<open>"end"\<close>.\<close>

definition destroyed_store :: "('m, 'v) InMemoryStore" where
  "destroyed_store = store_destroy empty_store"

text \<open>Limits with only the 5-hour cap set.\<close>

definition only_5h_limit :: "real \<Rightarrow> Limits" where
  "only_5h_limit a =
     \<lparr>limit_5h_usd = Some a, limit_daily_usd = None, daily_reset_time = None,
      daily_reset_mode = None, limit_weekly_usd = None, limit_monthly_usd = None\<rparr>"

text \<open>
  A ready store whose only content is a 5-hour window for key 1 that holds one record
  of cost 0, written at time 1000.
\<close>

definition zero_window_store :: "(cost_member, real) InMemoryStore" where
  "zero_window_store =
     snd (trackCost5hRollingWindow empty_store (cost_key KeyEntity 1 ''5h_rolling'') 0 1000 window5h)"

chapter \<open>Verified properties\<close>

section \<open>Sorted-set facts\<close>

lemma entries_of_zremrangebyscore:
  "entries_of key (snd (zremrangebyscore key lo hi data))
     = filter (\<lambda>(member, score). \<not> in_range lo hi score) (entries_of key data)"
  by (auto simp: entries_of_def zremrangebyscore_def Let_def split: option.splits)

lemma entries_of_zadd:
  "entries_of key (snd (zadd key score member data)) = map_set (entries_of key data) member score"
  by (simp add: entries_of_def zadd_def Let_def)

lemma zcard_entries: "zcard key data = length (entries_of key data)"
  by (simp add: zcard_def entries_of_def split: option.splits)

lemma zscore_entries: "zscore key member data = map_of (entries_of key data) member"
  by (simp add: zscore_def entries_of_def split: option.splits)

lemma zrange_all:
  "zrange key 0 (-1) data = map fst (sort_key snd (entries_of key data))"
  by (auto simp: zrange_def entries_of_def Let_def js_slice_def split: option.splits)

lemma map_set_fresh:
  "member \<notin> fst ` set zs \<Longrightarrow> map_set zs member score = zs @ [(member, score)]"
  by (induction zs) auto

lemma map_of_fresh: "member \<notin> fst ` set zs \<Longrightarrow> map_of zs member = None"
  by (simp add: map_of_eq_None_iff)

lemma zremrangebyscore_idem:
  "snd (zremrangebyscore key lo hi (snd (zremrangebyscore key lo hi data)))
     = snd (zremrangebyscore key lo hi data)"
  by (auto simp: zremrangebyscore_def Let_def split: option.splits)

lemma store_zremrangebyscore_idem:
  "snd (store_zremrangebyscore key lo hi (snd (store_zremrangebyscore key lo hi st)))
     = snd (store_zremrangebyscore key lo hi st)"
  by (simp add: store_zremrangebyscore_def split_beta zremrangebyscore_idem)

lemma entries_store_zrem:
  "entries_of key (zsetStore (snd (store_zremrangebyscore key lo hi st)))
     = filter (\<lambda>(member, score). \<not> in_range lo hi score) (entries_of key (zsetStore st))"
  by (simp add: store_zremrangebyscore_def split_beta entries_of_zremrangebyscore)

lemma entries_store_zadd:
  "entries_of key (zsetStore (snd (store_zadd key score member st)))
     = map_set (entries_of key (zsetStore st)) member score"
  by (simp add: store_zadd_def split_beta entries_of_zadd)

lemma status_zrem [simp]: "status (snd (store_zremrangebyscore key lo hi st)) = status st"
  by (simp add: store_zremrangebyscore_def split_beta)

lemma status_zadd [simp]: "status (snd (store_zadd key score member st)) = status st"
  by (simp add: store_zadd_def split_beta)

lemma filter_keep_all:
  "list_all (\<lambda>(member, score). b < score) zs \<Longrightarrow>
   filter (\<lambda>(member, score). \<not> in_range NegInfinity (Num b) score) zs = zs"
  by (induction zs) (auto simp: in_range_def)

lemmas script_defs =
  trackCost5hRollingWindow_def getCost5hRollingWindow_def
  trackCostDailyRollingWindow_def getCostDailyRollingWindow_def
  store_zremrangebyscore_def store_zadd_def store_zrange_def store_zcard_def store_zscore_def
  calculateTotalCost_def zremrangebyscore_def zadd_def zrange_def zcard_def zscore_def
  js_slice_def in_range_def empty_store_def Let_def

lemmas key_defs =
  cost_key_def show_int_def show_nat.simps digit_char_def global_sessions_key_def
  key_sessions_key_def provider_sessions_key_def session_info_key_def rpm_key_def
  user_daily_cost_key_def

section \<open>Rolling windows\<close>

lemma sum_list_insort_key:
  "sum_list (map g (insort_key f x xs)) = (g x :: real) + sum_list (map g xs)"
  by (induction xs) (auto simp: algebra_simps)

lemma sum_list_sort_key:
  "sum_list (map g (sort_key f xs)) = (sum_list (map g xs) :: real)"
  by (induction xs) (auto simp: sum_list_insort_key)

lemma foldl_add_sum_list:
  "foldl (\<lambda>total x. total + g x) a xs = a + sum_list (map g xs)"
  by (induction xs arbitrary: a) (auto simp: algebra_simps)

lemma calculateTotalCost_sum:
  "calculateTotalCost st key
     = sum_list (map (parseCostFromMember \<circ> fst) (entries_of key (zsetStore st)))"
proof -
  have "calculateTotalCost st key
      = sum_list (map parseCostFromMember (map fst (sort_key snd (entries_of key (zsetStore st)))))"
    by (simp add: calculateTotalCost_def store_zrange_def zrange_all foldl_add_sum_list)
  also have "\<dots> = sum_list (map (parseCostFromMember \<circ> fst) (sort_key snd (entries_of key (zsetStore st))))"
    by (simp add: comp_def)
  finally show ?thesis by (simp add: sum_list_sort_key)
qed

lemma entries_of_track:
  "entries_of key (zsetStore (snd (trackCost5hRollingWindow st key cost t w)))
     = map_set (filter (\<lambda>(member, score). \<not> score \<le> t - w) (entries_of key (zsetStore st)))
         (CostRecord t cost) t"
  by (simp add: trackCost5hRollingWindow_def split_beta entries_store_zadd entries_store_zrem
      in_range_def)

lemma entries_of_get:
  "entries_of key (zsetStore (snd (getCost5hRollingWindow st key now w)))
     = filter (\<lambda>(member, score). \<not> score \<le> now - w) (entries_of key (zsetStore st))"
  by (simp add: getCost5hRollingWindow_def split_beta entries_store_zrem in_range_def)

lemma get_total:
  "fst (getCost5hRollingWindow st key now w)
     = sum_list (map (parseCostFromMember \<circ> fst)
         (entries_of key (zsetStore (snd (getCost5hRollingWindow st key now w)))))"
  by (simp add: getCost5hRollingWindow_def split_beta calculateTotalCost_sum)

lemma filter_encode:
  "filter (\<lambda>(member, score). \<not> score \<le> b) (map encode_event es)
     = map encode_event (filter (\<lambda>(t, c). b < t) es)"
  by (induction es) (auto simp: encode_event_def)

lemma encode_fresh:
  "\<forall>e \<in> set prev. fst e < t \<Longrightarrow> CostRecord t c \<notin> fst ` set (map encode_event prev)"
  by (auto simp: encode_event_def)

lemma sum_encode:
  "sum_list (map (parseCostFromMember \<circ> fst \<circ> encode_event) es) = sum_list (map snd es)"
  by (induction es) (auto simp: encode_event_def)

text \<open>
  The window after a run of tracked events followed by a read: exactly the events
  younger than the window survive, whatever was tracked before them in order.
\<close>

lemma window_after_tracks:
  "entries_of key (zsetStore st) = map encode_event prev \<Longrightarrow>
   \<forall>p \<in> set prev. \<forall>e \<in> set events. fst p < fst e \<Longrightarrow>
   sorted_wrt (<) (map fst events) \<Longrightarrow>
   \<forall>e \<in> set events. fst e \<le> now \<Longrightarrow>
   entries_of key (zsetStore (snd (getCost5hRollingWindow (track5h_all st key w events) key now w)))
     = map encode_event (filter (\<lambda>(t, c). now - w < t) (prev @ events))"
proof (induction events arbitrary: st prev)
  case Nil
  then show ?case by (simp add: entries_of_get filter_encode)
next
  case (Cons e events)
  obtain t c where e: "e = (t, c)" by (cases e)
  let ?st1 = "snd (trackCost5hRollingWindow st key c t w)"
  let ?prev1 = "filter (\<lambda>(t', c'). t - w < t') prev @ [(t, c)]"
  have fresh: "CostRecord t c \<notin> fst ` set (map encode_event (filter (\<lambda>(t', c'). t - w < t') prev))"
    using Cons.prems(2) e by (intro encode_fresh) auto
  have st1: "entries_of key (zsetStore ?st1) = map encode_event ?prev1"
    using fresh
    by (simp add: entries_of_track Cons.prems(1) filter_encode map_set_fresh)
      (simp add: encode_event_def)
  have lt: "\<forall>p \<in> set ?prev1. \<forall>x \<in> set events. fst p < fst x"
    using Cons.prems(2,3) e by auto
  have srt: "sorted_wrt (<) (map fst events)"
    using Cons.prems(3) by simp
  have le: "\<forall>x \<in> set events. fst x \<le> now"
    using Cons.prems(4) by simp
  have tnow: "t \<le> now" using Cons.prems(4) e by simp
  have "entries_of key (zsetStore (snd (getCost5hRollingWindow (track5h_all ?st1 key w events) key now w)))
      = map encode_event (filter (\<lambda>(t, c). now - w < t) (?prev1 @ events))"
    by (rule Cons.IH[OF st1 lt srt le])
  moreover have "filter (\<lambda>(t', c'). now - w < t') (filter (\<lambda>(t', c'). t - w < t') prev)
      = filter (\<lambda>(t', c'). now - w < t') prev"
    using tnow by (induction prev) auto
  ultimately show ?case
    using e by simp
qed

text \<open>
  Claim C1, as amended. Cost events are recorded by \<open>trackCost5hRollingWindow\<close> at
  strictly increasing times on a key that had no window, and \<open>getCost5hRollingWindow\<close>
  is then called at a time \<open>now\<close> not before any of them, all with a window of
  18,000,000 ms. The call returns the sum of the costs of exactly the events with
  \<open>now - 18,000,000 < t \<le> now\<close>: the trim removes every score up to and including
  \<open>now - 18,000,000\<close>, so an event at exactly that time is excluded, like one at
  \<open>now - 18,000,001\<close>.
\<close>

theorem C1_window_sum:
  assumes "zsetStore st key = None"
    and "sorted_wrt (<) (map fst events)"
    and "list_all (\<lambda>(t, c). t \<le> now) events"
  shows "fst (getCost5hRollingWindow (track5h_all st key 18000000 events) key now 18000000)
     = sum_list (map snd (filter (\<lambda>(t, c). now - 18000000 < t \<and> t \<le> now) events))"
proof -
  have le: "\<forall>e \<in> set events. fst e \<le> now"
    using assms(3) by (auto simp: list_all_iff)
  have start: "entries_of key (zsetStore st) = map encode_event []"
    using assms(1) by (simp add: entries_of_def)
  have ent: "entries_of key (zsetStore (snd (getCost5hRollingWindow
                (track5h_all st key 18000000 events) key now 18000000)))
     = map encode_event (filter (\<lambda>(t, c). now - 18000000 < t) ([] @ events))"
    by (rule window_after_tracks[OF start _ assms(2) le]) simp
  have same: "filter (\<lambda>(t, c). now - 18000000 < t) events
            = filter (\<lambda>(t, c). now - 18000000 < t \<and> t \<le> now) events"
    using le by (intro filter_cong) auto
  show ?thesis
    by (simp add: get_total ent same sum_encode)
qed

text \<open>
  Three events at 0, 1 and 18,000,001 with costs 1, 2 and 4, read at 18,000,001:
  the events at \<open>now - 18,000,001\<close> and at exactly \<open>now - 18,000,000\<close> are both left
  out, and the total is 4.
\<close>

theorem C1_window_sum_witness:
  "zsetStore (empty_store :: (cost_member, real) InMemoryStore) ''key:1:cost_5h_rolling'' = None
   \<and> sorted_wrt (<) (map fst [(0, 1), (1, 2), (18000001 :: int, 4 :: real)])
   \<and> list_all (\<lambda>(t, c). t \<le> 18000001) [(0, 1), (1, 2), (18000001 :: int, 4 :: real)]
   \<and> fst (getCost5hRollingWindow
        (track5h_all (empty_store :: (cost_member, real) InMemoryStore)
           ''key:1:cost_5h_rolling'' 18000000 [(0, 1), (1, 2), (18000001, 4)])
        ''key:1:cost_5h_rolling'' 18000001 18000000) = 4"
  using C1_window_sum [of "empty_store :: (cost_member, real) InMemoryStore"
      "''key:1:cost_5h_rolling''" "[(0, 1), (1, 2), (18000001, 4)]" 18000001]
  by (simp add: empty_store_def)

text \<open>
  The claim as stated includes an event at exactly \<open>now - 18,000,000\<close>. One event of
  cost 5 at time 0, read at time 18,000,000: the claimed total is 5, the code returns 0.
\<close>

theorem C1_boundary_counterexample:
  "fst (getCost5hRollingWindow
      (track5h_all (empty_store :: (cost_member, real) InMemoryStore)
         ''key:1:cost_5h_rolling'' 18000000 [(0, 5)])
      ''key:1:cost_5h_rolling'' 18000000 18000000)
   \<noteq> sum_list (map snd (filter (\<lambda>(t, c). 18000000 - 18000000 \<le> t \<and> t \<le> 18000000) [(0 :: int, 5 :: real)]))"
  by (simp add: script_defs)

text \<open>
  Claim C9. \<open>getCost5hRollingWindow\<close> and \<open>getCostDailyRollingWindow\<close> are idempotent:
  a second call with the same \<open>now\<close> and window on the same key, with nothing tracked in
  between, returns the same total as the first (and leaves the store as the first left
  it).
\<close>

theorem C9_get_idempotent:
  "fst (getCost5hRollingWindow (snd (getCost5hRollingWindow st key nowMs windowMs)) key nowMs windowMs)
     = fst (getCost5hRollingWindow st key nowMs windowMs)
   \<and> snd (getCost5hRollingWindow (snd (getCost5hRollingWindow st key nowMs windowMs)) key nowMs windowMs)
     = snd (getCost5hRollingWindow st key nowMs windowMs)
   \<and> fst (getCostDailyRollingWindow (snd (getCostDailyRollingWindow st key nowMs windowMs)) key nowMs windowMs)
     = fst (getCostDailyRollingWindow st key nowMs windowMs)
   \<and> snd (getCostDailyRollingWindow (snd (getCostDailyRollingWindow st key nowMs windowMs)) key nowMs windowMs)
     = snd (getCostDailyRollingWindow st key nowMs windowMs)"
  using store_zremrangebyscore_idem[of key NegInfinity "Num (nowMs - windowMs)" st]
  by (simp add: getCost5hRollingWindow_def getCostDailyRollingWindow_def split_beta)

text \<open>
  A window holding two events, read twice at the same instant: both reads return 16.
\<close>

theorem C9_get_idempotent_witness:
  "fst (getCost5hRollingWindow
      (track5h_all (empty_store :: (cost_member, real) InMemoryStore) ''key:1:cost_5h_rolling''
         18000000 [(0, 5), (1, 7), (5, 9)])
      ''key:1:cost_5h_rolling'' 18000000 18000000) = 16
   \<and> fst (getCost5hRollingWindow
      (snd (getCost5hRollingWindow
         (track5h_all (empty_store :: (cost_member, real) InMemoryStore) ''key:1:cost_5h_rolling''
            18000000 [(0, 5), (1, 7), (5, 9)])
         ''key:1:cost_5h_rolling'' 18000000 18000000))
      ''key:1:cost_5h_rolling'' 18000000 18000000) = 16"
proof -
  let ?st = "track5h_all (empty_store :: (cost_member, real) InMemoryStore) ''key:1:cost_5h_rolling''
         18000000 [(0, 5), (1, 7), (5, 9)]"
  have first: "fst (getCost5hRollingWindow ?st ''key:1:cost_5h_rolling'' 18000000 18000000) = 16"
    by (simp add: script_defs)
  show ?thesis
    using first C9_get_idempotent [of ?st "''key:1:cost_5h_rolling''" 18000000 18000000]
    by simp
qed

section \<open>Atomic admission of provider sessions\<close>

text \<open>One call on a set whose members are all live and do not contain the session.\<close>

lemma checkAndTrackSession_step:
  assumes live: "list_all (\<lambda>(member, score). now - 300000 < score) (entries_of key (zsetStore st))"
    and fresh: "sessionId \<notin> fst ` set (entries_of key (zsetStore st))"
    and pos: "0 < limit"
  shows "checkAndTrackSession st key sessionId limit now =
     (if int (length (entries_of key (zsetStore st))) \<ge> limit
      then (\<lparr>allowed = False, currentCount = int (length (entries_of key (zsetStore st))), tracked = False\<rparr>,
            snd (store_zremrangebyscore key NegInfinity (Num (now - 300000)) st))
      else (\<lparr>allowed = True, currentCount = int (length (entries_of key (zsetStore st))) + 1, tracked = True\<rparr>,
            snd (store_zadd key now sessionId (snd (store_zremrangebyscore key NegInfinity (Num (now - 300000)) st)))))"
proof -
  let ?st1 = "snd (store_zremrangebyscore key NegInfinity (Num (now - 300000)) st)"
  have e1: "entries_of key (zsetStore ?st1) = entries_of key (zsetStore st)"
    using live by (simp add: entries_store_zrem filter_keep_all)
  have sc: "store_zscore key sessionId ?st1 = None"
    using fresh by (simp add: store_zscore_def zscore_entries e1 map_of_fresh)
  have cd: "store_zcard key ?st1 = length (entries_of key (zsetStore st))"
    by (simp add: store_zcard_def zcard_entries e1)
  show ?thesis
    using pos by (simp add: checkAndTrackSession_def Let_def split_beta sc cd)
qed

lemma entries_after_step_rejected:
  assumes "list_all (\<lambda>(member, score). now - 300000 < score) (entries_of key (zsetStore st))"
  shows "entries_of key (zsetStore (snd (store_zremrangebyscore key NegInfinity (Num (now - 300000)) st)))
     = entries_of key (zsetStore st)"
  using assms by (simp add: entries_store_zrem filter_keep_all)

lemma entries_after_step_admitted:
  assumes "list_all (\<lambda>(member, score). now - 300000 < score) (entries_of key (zsetStore st))"
    and "sessionId \<notin> fst ` set (entries_of key (zsetStore st))"
  shows "entries_of key (zsetStore (snd (store_zadd key now sessionId
            (snd (store_zremrangebyscore key NegInfinity (Num (now - 300000)) st)))))
     = entries_of key (zsetStore st) @ [(sessionId, now)]"
  using assms by (simp add: entries_store_zadd entries_store_zrem filter_keep_all map_set_fresh)

lemma verdicts_admit: "k < N \<Longrightarrow> verdicts N k (Suc n) = True # verdicts N (Suc k) n"
proof -
  assume "k < N"
  then have a: "min (N - k) (Suc n) = Suc (min (N - Suc k) n)" by auto
  have b: "Suc n - (N - k) = n - (N - Suc k)" using \<open>k < N\<close> by auto
  show ?thesis unfolding verdicts_def a b by simp
qed

lemma verdicts_reject: "N \<le> k \<Longrightarrow> verdicts N k (Suc n) = False # verdicts N k n"
  by (simp add: verdicts_def)

lemma provider_calls_general:
  fixes st :: "(string, 'v) InMemoryStore"
  assumes "0 < N"
    and "status st = ready"
    and "list_all (\<lambda>(sessionId, now). t0 \<le> now \<and> now < t0 + 300000) calls"
    and "list_all (\<lambda>(member, score). t0 \<le> score) (entries_of (provider_sessions_key pid) (zsetStore st))"
    and "set (map fst calls) \<inter> fst ` set (entries_of (provider_sessions_key pid) (zsetStore st)) = {}"
    and "distinct (map fst calls)"
    and "length (entries_of (provider_sessions_key pid) (zsetStore st)) = k"
    and "k \<le> N"
  shows "map (ps_allowed \<circ> fst) (provider_session_calls (Some st) pid (int N) calls) = verdicts N k (length calls)
       \<and> map (ps_tracked \<circ> fst) (provider_session_calls (Some st) pid (int N) calls) = verdicts N k (length calls)
       \<and> list_all (\<lambda>(result, client). client_zcard (provider_sessions_key pid) client \<le> N)
            (provider_session_calls (Some st) pid (int N) calls)"
  using assms(2-)
proof (induction calls arbitrary: st k)
  case Nil
  then show ?case by (simp add: verdicts_def)
next
  case (Cons call calls)
  obtain sessionId now where call: "call = (sessionId, now)" by (cases call)
  let ?key = "provider_sessions_key pid"
  let ?es = "entries_of ?key (zsetStore st)"
  let ?st1 = "snd (store_zremrangebyscore ?key NegInfinity (Num (now - 300000)) st)"
  let ?st2 = "snd (store_zadd ?key now sessionId ?st1)"
  have now: "t0 \<le> now" "now < t0 + 300000"
    using Cons.prems(2) call by auto
  have live: "list_all (\<lambda>(member, score). now - 300000 < score) ?es"
    using Cons.prems(3) now by (auto simp: list_all_iff)
  have fresh: "sessionId \<notin> fst ` set ?es"
    using Cons.prems(4) call by auto
  have step: "checkAndTrackSession st ?key sessionId (int N) now =
     (if int (length ?es) \<ge> int N
      then (\<lparr>allowed = False, currentCount = int (length ?es), tracked = False\<rparr>, ?st1)
      else (\<lparr>allowed = True, currentCount = int (length ?es) + 1, tracked = True\<rparr>, ?st2))"
    using checkAndTrackSession_step[OF live fresh, of "int N"] \<open>0 < N\<close> by simp
  have rest_window: "list_all (\<lambda>(sessionId, now). t0 \<le> now \<and> now < t0 + 300000) calls"
    using Cons.prems(2) by simp
  have rest_distinct: "distinct (map fst calls)"
    using Cons.prems(5) by simp
  show ?case
  proof (cases "k < N")
    case True
    have e2: "entries_of ?key (zsetStore ?st2) = ?es @ [(sessionId, now)]"
      by (rule entries_after_step_admitted[OF live fresh])
    have one: "checkAndTrackProviderSession (Some st) now pid sessionId (int N)
        = (\<lparr>ps_allowed = True, ps_count = int k + 1, ps_tracked = True, ps_reason = None\<rparr>, Some ?st2)"
      using True \<open>0 < N\<close> Cons.prems(1,6)
      by (simp add: checkAndTrackProviderSession_def step Let_def)
    have st2_ready: "status ?st2 = ready" using Cons.prems(1) by simp
    have st2_live: "list_all (\<lambda>(member, score). t0 \<le> score) (entries_of ?key (zsetStore ?st2))"
      using Cons.prems(3) now by (simp add: e2)
    have st2_fresh: "set (map fst calls) \<inter> fst ` set (entries_of ?key (zsetStore ?st2)) = {}"
      using Cons.prems(4,5) call by (auto simp: e2)
    have st2_len: "length (entries_of ?key (zsetStore ?st2)) = Suc k"
      using Cons.prems(6) by (simp add: e2)
    have k2: "Suc k \<le> N" using True by simp
    note IH = Cons.IH[OF st2_ready rest_window st2_live st2_fresh rest_distinct st2_len k2]
    have card: "client_zcard ?key (Some ?st2) \<le> N"
      using st2_len k2 by (simp add: client_zcard_def store_zcard_def zcard_entries)
    show ?thesis
      using IH card by (simp add: call one verdicts_admit[OF True])
  next
    case False
    then have full: "N \<le> k" by simp
    have e1: "entries_of ?key (zsetStore ?st1) = ?es"
      by (rule entries_after_step_rejected[OF live])
    have one: "checkAndTrackProviderSession (Some st) now pid sessionId (int N)
        = (\<lparr>ps_allowed = False, ps_count = int k, ps_tracked = False,
             ps_reason = Some (ProviderSessionLimitReached (int k) (int N))\<rparr>, Some ?st1)"
      using full \<open>0 < N\<close> Cons.prems(1,6)
      by (simp add: checkAndTrackProviderSession_def step Let_def)
    have st1_ready: "status ?st1 = ready" using Cons.prems(1) by simp
    have st1_live: "list_all (\<lambda>(member, score). t0 \<le> score) (entries_of ?key (zsetStore ?st1))"
      using Cons.prems(3) by (simp add: e1)
    have st1_fresh: "set (map fst calls) \<inter> fst ` set (entries_of ?key (zsetStore ?st1)) = {}"
      using Cons.prems(4) by (auto simp: e1)
    have st1_len: "length (entries_of ?key (zsetStore ?st1)) = k"
      using Cons.prems(6) by (simp add: e1)
    note IH = Cons.IH[OF st1_ready rest_window st1_live st1_fresh rest_distinct st1_len Cons.prems(7)]
    have card: "client_zcard ?key (Some ?st1) \<le> N"
      using st1_len Cons.prems(7) by (simp add: client_zcard_def store_zcard_def zcard_entries)
    show ?thesis
      using IH card by (simp add: call one verdicts_reject[OF full])
  qed
qed

lemma map_conj_zip:
  "map (\<lambda>(result, client). f result \<and> g result) xs
     = map (\<lambda>(a, b). a \<and> b) (zip (map (f \<circ> fst) xs) (map (g \<circ> fst) xs))"
  by (induction xs) auto

text \<open>
  Claim C2. For every limit \<open>N > 0\<close>, take \<open>N + 1\<close> calls of
  \<open>checkAndTrackProviderSession\<close> for one provider with pairwise distinct session ids,
  on a ready store in which the provider's session set is empty, all issued within one
  five-minute window (every call time lies in \<open>[t0, t0 + 300000)\<close>); the script runs
  under a mutex, so the calls are served one after the other in some order. Then the
  first \<open>N\<close> calls return \<open>allowed: true\<close> with \<open>tracked: true\<close> and the last returns
  \<open>allowed: false\<close>: exactly \<open>N\<close> admitted and tracked, exactly one rejected; and after
  every call the provider's sorted set holds at most \<open>N\<close> members.
\<close>

theorem C2_atomic_admission:
  fixes st :: "(string, 'v) InMemoryStore"
  assumes "0 < N"
    and "length calls = N + 1"
    and "distinct (map fst calls)"
    and "list_all (\<lambda>(sessionId, now). t0 \<le> now \<and> now < t0 + 300000) calls"
    and "status st = ready"
    and "zsetStore st (provider_sessions_key pid) = None"
  shows "map (ps_allowed \<circ> fst) (provider_session_calls (Some st) pid (int N) calls)
           = replicate N True @ [False]
       \<and> map (ps_tracked \<circ> fst) (provider_session_calls (Some st) pid (int N) calls)
           = replicate N True @ [False]
       \<and> length (filter (\<lambda>(result, client). ps_allowed result \<and> ps_tracked result)
            (provider_session_calls (Some st) pid (int N) calls)) = N
       \<and> length (filter (\<lambda>(result, client). \<not> ps_allowed result)
            (provider_session_calls (Some st) pid (int N) calls)) = 1
       \<and> list_all (\<lambda>(result, client). client_zcard (provider_sessions_key pid) client \<le> N)
            (provider_session_calls (Some st) pid (int N) calls)"
proof -
  let ?rs = "provider_session_calls (Some st) pid (int N) calls"
  have empty: "entries_of (provider_sessions_key pid) (zsetStore st) = []"
    using assms(6) by (simp add: entries_of_def)
  have gen: "map (ps_allowed \<circ> fst) ?rs = verdicts N 0 (length calls)
       \<and> map (ps_tracked \<circ> fst) ?rs = verdicts N 0 (length calls)
       \<and> list_all (\<lambda>(result, client). client_zcard (provider_sessions_key pid) client \<le> N) ?rs"
    by (rule provider_calls_general[OF assms(1) assms(5) assms(4)]) (simp_all add: empty assms(3))
  have v: "verdicts N 0 (length calls) = replicate N True @ [False]"
    by (simp add: verdicts_def assms(2))
  have al: "map (ps_allowed \<circ> fst) ?rs = replicate N True @ [False]"
    and tr: "map (ps_tracked \<circ> fst) ?rs = replicate N True @ [False]"
    using gen v by simp_all
  have both: "map (\<lambda>(result, client). ps_allowed result \<and> ps_tracked result) ?rs
      = map (\<lambda>(a, b). a \<and> b) (zip (map (ps_allowed \<circ> fst) ?rs) (map (ps_tracked \<circ> fst) ?rs))"
    by (rule map_conj_zip)
  have "length (filter (\<lambda>(result, client). ps_allowed result \<and> ps_tracked result) ?rs)
      = length (filter (\<lambda>b. b) (map (\<lambda>(result, client). ps_allowed result \<and> ps_tracked result) ?rs))"
    by (simp add: filter_map comp_def)
  also have "\<dots> = N"
    unfolding both al tr by (simp add: zip_replicate1 map_replicate_const filter_map comp_def)
  finally have c1: "length (filter (\<lambda>(result, client). ps_allowed result \<and> ps_tracked result) ?rs) = N" .
  have "length (filter (\<lambda>(result, client). \<not> ps_allowed result) ?rs)
      = length (filter (\<lambda>b. \<not> b) (map (ps_allowed \<circ> fst) ?rs))"
    by (simp add: filter_map comp_def case_prod_unfold)
  also have "\<dots> = 1" unfolding al by simp
  finally have c2: "length (filter (\<lambda>(result, client). \<not> ps_allowed result) ?rs) = 1" .
  show ?thesis using al tr c1 c2 gen by simp
qed

text \<open>Limit 2 and three sessions within two milliseconds: two admitted, the third rejected.\<close>

theorem C2_atomic_admission_witness:
  "(0::nat) < 2
   \<and> length [(''s1'', 1000 :: int), (''s2'', 1001), (''s3'', 1002)] = 2 + 1
   \<and> distinct (map fst [(''s1'', 1000 :: int), (''s2'', 1001), (''s3'', 1002)])
   \<and> list_all (\<lambda>(sessionId, now). 1000 \<le> now \<and> now < 1000 + 300000)
        [(''s1'', 1000 :: int), (''s2'', 1001), (''s3'', 1002)]
   \<and> status (empty_store :: (string, real) InMemoryStore) = ready
   \<and> zsetStore (empty_store :: (string, real) InMemoryStore) (provider_sessions_key 7) = None
   \<and> map (ps_allowed \<circ> fst)
        (provider_session_calls (Some (empty_store :: (string, real) InMemoryStore)) 7 (int 2)
           [(''s1'', 1000), (''s2'', 1001), (''s3'', 1002)]) = [True, True, False]
   \<and> map (ps_tracked \<circ> fst)
        (provider_session_calls (Some (empty_store :: (string, real) InMemoryStore)) 7 (int 2)
           [(''s1'', 1000), (''s2'', 1001), (''s3'', 1002)]) = [True, True, False]
   \<and> list_all (\<lambda>(result, client). client_zcard (provider_sessions_key 7) client \<le> 2)
        (provider_session_calls (Some (empty_store :: (string, real) InMemoryStore)) 7 (int 2)
           [(''s1'', 1000), (''s2'', 1001), (''s3'', 1002)])"
  using C2_atomic_admission [of 2 "[(''s1'', 1000), (''s2'', 1001), (''s3'', 1002)]" 1000
      "empty_store :: (string, real) InMemoryStore" 7]
  by (simp add: empty_store_def numeral_2_eq_2)

section \<open>Endpoint health\<close>

lemma recordFailure_step:
  assumes "ident \<noteq> 0" "db ident = Some row" "fits_integer_column (c + 1)"
  shows "recordFailure ident c now db =
     Inr (if c + 1 \<ge> 3 then unhealthy else if c + 1 \<ge> 1 then degraded else healthy,
          db(ident \<mapsto> row\<lparr>consecutiveFailures := c + 1, lastFailureTime := Some now,
                healthStatus := (if c + 1 \<ge> 3 then unhealthy else if c + 1 \<ge> 1 then degraded else healthy),
                updatedAt := now\<rparr>))"
  using assms
  by (simp add: recordFailure_def updateEndpointHealth_def FAILURE_THRESHOLD_def
      DEGRADED_THRESHOLD_def Let_def)

lemma recordSuccess_step:
  assumes "ident \<noteq> 0" "db ident = Some row"
  shows "recordSuccess ident now db =
     Inr (db(ident \<mapsto> row\<lparr>consecutiveFailures := 0, lastSuccessTime := Some now,
                healthStatus := healthy, updatedAt := now\<rparr>))"
  using assms by (simp add: recordSuccess_def updateEndpointHealth_def fits_integer_column_def)

text \<open>
  A streak that would leave the column's range is refused by the database: the call
  throws, whether or not the row exists, and nothing is stored. This is the case of a
  stored streak of 2147483647.
\<close>

lemma recordFailure_beyond_column:
  assumes "ident \<noteq> 0" "\<not> fits_integer_column (c + 1)"
  shows "recordFailure ident c now db = Inl (IntegerOutOfRange (c + 1))"
  using assms
  by (simp add: recordFailure_def updateEndpointHealth_def Let_def)

lemma recordFailure_at_column_maximum:
  "recordFailure 1 2147483647 now db = Inl (IntegerOutOfRange 2147483648)"
  using recordFailure_beyond_column [of 1 2147483647 now db]
  by (simp add: fits_integer_column_def)

text \<open>
  Claim C5. For an endpoint other than the sentinel (id \<open>\<noteq> 0\<close>) whose stored streak is
  0, three consecutive \<open>recordFailure\<close> calls, each passed the streak the previous one
  stored, return \<open>degraded\<close>, \<open>degraded\<close>, \<open>unhealthy\<close> in that order and leave the
  streak at 3; one failure from streak 0 is \<open>degraded\<close>, and in general a failure that
  takes the streak to 3 or more is \<open>unhealthy\<close>, for every streak \<open>c\<close> whose successor
  the 32-bit column \<open>consecutive_failures\<close> can hold. A \<open>recordSuccess\<close> call on an
  existing endpoint, in whatever state it is, stores \<open>consecutiveFailures = 0\<close> and
  \<open>healthStatus = healthy\<close>.
\<close>

theorem C5_health_state_machine:
  assumes "ident \<noteq> 0"
    and "db ident = Some row"
    and "consecutiveFailures row = 0"
    and "db2 ident = Some row2"
    and "- 2147483648 \<le> c + 1" and "c + 1 \<le> 2147483647"
  shows "(\<exists>db'. recordFailures ident [t1, t2, t3] db = Inr ([degraded, degraded, unhealthy], db')
            \<and> map_option consecutiveFailures (db' ident) = Some 3
            \<and> map_option healthStatus (db' ident) = Some unhealthy)
       \<and> (\<exists>db'. recordFailure ident 0 t1 db = Inr (degraded, db')
            \<and> map_option consecutiveFailures (db' ident) = Some 1
            \<and> map_option healthStatus (db' ident) = Some degraded)
       \<and> (\<exists>db'. recordFailure ident c t1 db2
              = Inr (if 3 \<le> c + 1 then unhealthy else if 1 \<le> c + 1 then degraded else healthy, db')
            \<and> map_option consecutiveFailures (db' ident) = Some (c + 1)
            \<and> map_option healthStatus (db' ident)
                = Some (if 3 \<le> c + 1 then unhealthy else if 1 \<le> c + 1 then degraded else healthy))
       \<and> (\<exists>db'. recordSuccess ident t db2 = Inr db'
            \<and> map_option consecutiveFailures (db' ident) = Some 0
            \<and> map_option healthStatus (db' ident) = Some healthy)"
proof -
  have fits: "fits_integer_column (c + 1)"
    using assms(5,6) by (simp add: fits_integer_column_def)
  have small: "fits_integer_column (0 + 1)" "fits_integer_column (1 + 1)" "fits_integer_column (2 + 1)"
    by (simp_all add: fits_integer_column_def)
  have run: "\<exists>db'. recordFailures ident [t1, t2, t3] db = Inr ([degraded, degraded, unhealthy], db')
            \<and> map_option consecutiveFailures (db' ident) = Some 3
            \<and> map_option healthStatus (db' ident) = Some unhealthy"
    using assms(1,2,3) small by (simp add: recordFailure_step)
  have one: "\<exists>db'. recordFailure ident 0 t1 db = Inr (degraded, db')
            \<and> map_option consecutiveFailures (db' ident) = Some 1
            \<and> map_option healthStatus (db' ident) = Some degraded"
    using assms(1,2) small(1) by (simp add: recordFailure_step)
  have any: "\<exists>db'. recordFailure ident c t1 db2
              = Inr (if 3 \<le> c + 1 then unhealthy else if 1 \<le> c + 1 then degraded else healthy, db')
            \<and> map_option consecutiveFailures (db' ident) = Some (c + 1)
            \<and> map_option healthStatus (db' ident)
                = Some (if 3 \<le> c + 1 then unhealthy else if 1 \<le> c + 1 then degraded else healthy)"
    using assms(1,4) fits by (simp add: recordFailure_step)
  have reset: "\<exists>db'. recordSuccess ident t db2 = Inr db'
            \<and> map_option consecutiveFailures (db' ident) = Some 0
            \<and> map_option healthStatus (db' ident) = Some healthy"
    using assms(1,4) by (simp add: recordSuccess_step)
  show ?thesis
    using run one any reset by blast
qed

text \<open>
  Endpoint 1 with streak 0 and status \<open>unknown\<close>: three failures give degraded, degraded,
  unhealthy; a failure passed the streak 5 is unhealthy and stores 6; a success on the
  same table resets it.
\<close>

theorem C5_health_state_machine_witness:
  "(1::int) \<noteq> 0
   \<and> (Map.empty(1 \<mapsto> example_endpoint 1 0 1 unknown)) 1 = Some (example_endpoint 1 0 1 unknown)
   \<and> consecutiveFailures (example_endpoint 1 0 1 unknown) = 0
   \<and> - 2147483648 \<le> (5::int) + 1 \<and> (5::int) + 1 \<le> 2147483647
   \<and> (\<exists>db'. recordFailures 1 [10, 20, 30] (Map.empty(1 \<mapsto> example_endpoint 1 0 1 unknown))
              = Inr ([degraded, degraded, unhealthy], db')
            \<and> map_option consecutiveFailures (db' 1) = Some 3
            \<and> map_option healthStatus (db' 1) = Some unhealthy)
   \<and> (\<exists>db'. recordFailure 1 5 10 (Map.empty(1 \<mapsto> example_endpoint 1 0 1 unknown))
              = Inr (unhealthy, db')
            \<and> map_option consecutiveFailures (db' 1) = Some 6
            \<and> map_option healthStatus (db' 1) = Some unhealthy)
   \<and> (\<exists>db'. recordSuccess 1 40 (Map.empty(1 \<mapsto> example_endpoint 1 0 1 unknown)) = Inr db'
            \<and> map_option consecutiveFailures (db' 1) = Some 0
            \<and> map_option healthStatus (db' 1) = Some healthy)"
  using C5_health_state_machine [of 1 "Map.empty(1 \<mapsto> example_endpoint 1 0 1 unknown)"
      "example_endpoint 1 0 1 unknown" "Map.empty(1 \<mapsto> example_endpoint 1 0 1 unknown)"
      "example_endpoint 1 0 1 unknown" 5 10 20 30 40]
  by (simp add: example_endpoint_def)

section \<open>Endpoint selection\<close>

lemma set_availableEndpoints:
  "set (availableEndpoints provider ex allEndpoints)
     = resolve provider ` {ep \<in> set allEndpoints. isEnabled ep \<and> healthStatus ep \<noteq> unhealthy
          \<and> (case ex of None \<Rightarrow> True | Some ids \<Rightarrow> endpointId ep \<notin> set ids)}"
  by (auto simp: availableEndpoints_def is_available_def split: option.splits)

lemma sort_key_hd_min:
  "xs \<noteq> [] \<Longrightarrow> \<exists>e rest. sort_key f xs = e # rest \<and> e \<in> set xs \<and> (\<forall>x \<in> set xs. f e \<le> f x)"
proof -
  assume ne: "xs \<noteq> []"
  have s: "sorted (map f (sort_key f xs))" by simp
  have st: "set (sort_key f xs) = set xs" by simp
  obtain e rest where er: "sort_key f xs = e # rest"
    using ne by (cases "sort_key f xs") (auto dest: arg_cong[where f = length])
  have "\<forall>x \<in> set (e # rest). f e \<le> f x"
    using s unfolding er by auto
  then show ?thesis using er st by (metis list.set_intros(1))
qed

lemma selectFailover_min:
  "endpoints \<noteq> [] \<Longrightarrow>
   \<exists>e \<in> set endpoints. selectFailover endpoints = Some e
      \<and> (\<forall>x \<in> set endpoints. resolvedPriority e \<le> resolvedPriority x)"
  using sort_key_hd_min[of endpoints resolvedPriority]
  by (auto simp: selectFailover_def)

lemma failover_example:
  assumes "useMultipleEndpoints provider"
    and "endpointSelectionStrategy provider = Some failover \<or> endpointSelectionStrategy provider = None"
    and "isEnabled a \<and> isEnabled b \<and> isEnabled c"
    and "healthStatus a \<noteq> unhealthy \<and> healthStatus b \<noteq> unhealthy \<and> healthStatus c \<noteq> unhealthy"
    and "priority a = 5 \<and> priority b = 1 \<and> priority c = 3"
    and "endpointId a \<noteq> endpointId b \<and> endpointId c \<noteq> endpointId b"
  shows "fst (selectEndpoint provider None [a, b, c] rr u) = Some (resolve provider b)"
    and "fst (selectEndpoint provider (Some [endpointId b]) [a, b, c] rr u) = Some (resolve provider c)"
  using assms
  by (auto simp: selectEndpoint_def availableEndpoints_def is_available_def selectFailover_def
      resolve_def Let_def)

text \<open>
  Claim C6. With multi-endpoint mode on, \<open>selectEndpoint\<close> keeps exactly the endpoints
  that are enabled, not \<open>unhealthy\<close> and not in the exclusion list (each with its key
  resolved), and returns \<open>null\<close> when none is left. Under the failover strategy (also
  the default when no strategy is set) it returns one of the kept endpoints whose
  priority is minimal among them. For three enabled, not unhealthy endpoints with
  priorities 5, 1 and 3 it selects the one with priority 1, and with that one excluded
  the one with priority 3.
\<close>

theorem C6_failover_selection:
  assumes "useMultipleEndpoints provider"
  shows "set (availableEndpoints provider ex allEndpoints)
           = resolve provider ` {ep \<in> set allEndpoints. isEnabled ep \<and> healthStatus ep \<noteq> unhealthy
                \<and> (case ex of None \<Rightarrow> True | Some ids \<Rightarrow> endpointId ep \<notin> set ids)}
       \<and> (availableEndpoints provider ex allEndpoints = []
            \<longrightarrow> fst (selectEndpoint provider ex allEndpoints rr u) = None)
       \<and> (availableEndpoints provider ex allEndpoints \<noteq> []
            \<and> (endpointSelectionStrategy provider = Some failover \<or> endpointSelectionStrategy provider = None)
            \<longrightarrow> (\<exists>e \<in> set (availableEndpoints provider ex allEndpoints).
                   fst (selectEndpoint provider ex allEndpoints rr u) = Some e
                   \<and> (\<forall>x \<in> set (availableEndpoints provider ex allEndpoints).
                         resolvedPriority e \<le> resolvedPriority x)))
       \<and> ((endpointSelectionStrategy provider = Some failover \<or> endpointSelectionStrategy provider = None)
            \<and> isEnabled a \<and> isEnabled b \<and> isEnabled c
            \<and> healthStatus a \<noteq> unhealthy \<and> healthStatus b \<noteq> unhealthy \<and> healthStatus c \<noteq> unhealthy
            \<and> priority a = 5 \<and> priority b = 1 \<and> priority c = 3
            \<and> endpointId a \<noteq> endpointId b \<and> endpointId c \<noteq> endpointId b
            \<longrightarrow> fst (selectEndpoint provider None [a, b, c] rr u) = Some (resolve provider b)
              \<and> fst (selectEndpoint provider (Some [endpointId b]) [a, b, c] rr u)
                  = Some (resolve provider c))"
proof (intro conjI impI)
  show "set (availableEndpoints provider ex allEndpoints)
           = resolve provider ` {ep \<in> set allEndpoints. isEnabled ep \<and> healthStatus ep \<noteq> unhealthy
                \<and> (case ex of None \<Rightarrow> True | Some ids \<Rightarrow> endpointId ep \<notin> set ids)}"
    by (rule set_availableEndpoints)
next
  assume "availableEndpoints provider ex allEndpoints = []"
  then show "fst (selectEndpoint provider ex allEndpoints rr u) = None"
    using assms by (simp add: selectEndpoint_def)
next
  assume a: "availableEndpoints provider ex allEndpoints \<noteq> []
            \<and> (endpointSelectionStrategy provider = Some failover \<or> endpointSelectionStrategy provider = None)"
  then have "fst (selectEndpoint provider ex allEndpoints rr u)
      = selectFailover (availableEndpoints provider ex allEndpoints)"
    using assms by (auto simp: selectEndpoint_def Let_def)
  then show "\<exists>e \<in> set (availableEndpoints provider ex allEndpoints).
                   fst (selectEndpoint provider ex allEndpoints rr u) = Some e
                   \<and> (\<forall>x \<in> set (availableEndpoints provider ex allEndpoints).
                         resolvedPriority e \<le> resolvedPriority x)"
    using selectFailover_min[of "availableEndpoints provider ex allEndpoints"] a by simp
next
  assume ex: "(endpointSelectionStrategy provider = Some failover \<or> endpointSelectionStrategy provider = None)
            \<and> isEnabled a \<and> isEnabled b \<and> isEnabled c
            \<and> healthStatus a \<noteq> unhealthy \<and> healthStatus b \<noteq> unhealthy \<and> healthStatus c \<noteq> unhealthy
            \<and> priority a = 5 \<and> priority b = 1 \<and> priority c = 3
            \<and> endpointId a \<noteq> endpointId b \<and> endpointId c \<noteq> endpointId b"
  show "fst (selectEndpoint provider None [a, b, c] rr u) = Some (resolve provider b)"
    using ex by (intro failover_example(1)[OF assms]) auto
  show "fst (selectEndpoint provider (Some [endpointId b]) [a, b, c] rr u) = Some (resolve provider c)"
    using ex by (intro failover_example(2)[OF assms]) auto
qed

text \<open>
  Endpoints 1, 2, 3 with priorities 5, 1, 3, all healthy, failover: endpoint 2 is
  selected; with endpoint 2 excluded, endpoint 3; with all three excluded, nothing.
\<close>

theorem C6_failover_selection_witness:
  "useMultipleEndpoints (example_provider (Some failover))
   \<and> map_option resolvedPriority (fst (selectEndpoint (example_provider (Some failover)) None
        [example_endpoint 1 5 1 healthy, example_endpoint 2 1 1 healthy, example_endpoint 3 3 1 healthy]
        Map.empty 0)) = Some 1
   \<and> map_option resolvedPriority (fst (selectEndpoint (example_provider (Some failover)) (Some [2])
        [example_endpoint 1 5 1 healthy, example_endpoint 2 1 1 healthy, example_endpoint 3 3 1 healthy]
        Map.empty 0)) = Some 3
   \<and> fst (selectEndpoint (example_provider (Some failover)) (Some [1, 2, 3])
        [example_endpoint 1 5 1 healthy, example_endpoint 2 1 1 healthy, example_endpoint 3 3 1 healthy]
        Map.empty 0) = None"
proof -
  let ?p = "example_provider (Some failover)"
  let ?a = "example_endpoint 1 5 1 healthy"
  let ?b = "example_endpoint 2 1 1 healthy"
  let ?c = "example_endpoint 3 3 1 healthy"
  have multi: "useMultipleEndpoints ?p"
    by (simp add: example_provider_def)
  note inst = C6_failover_selection [OF multi, of "Some [1, 2, 3]" "[?a, ?b, ?c]" Map.empty 0 ?a ?b ?c]
  have pick: "fst (selectEndpoint ?p None [?a, ?b, ?c] Map.empty 0) = Some (resolve ?p ?b)"
    and pick': "fst (selectEndpoint ?p (Some [2]) [?a, ?b, ?c] Map.empty 0) = Some (resolve ?p ?c)"
    using inst by (simp_all add: example_provider_def example_endpoint_def)
  have none: "fst (selectEndpoint ?p (Some [1, 2, 3]) [?a, ?b, ?c] Map.empty 0) = None"
    using inst by (simp add: availableEndpoints_def is_available_def example_endpoint_def)
  show ?thesis
    using multi pick pick' none by (simp add: resolve_def example_endpoint_def)
qed

lemma weighted_walk_mem: "weighted_walk r endpoints = Some e \<Longrightarrow> e \<in> set endpoints"
  by (induction endpoints arbitrary: r) (auto simp: Let_def split: if_splits)

lemma js_index_last: "xs \<noteq> [] \<Longrightarrow> js_index xs (int (length xs) - 1) = Some (last xs)"
  by (cases xs rule: rev_cases) (auto simp: js_index_def nth_append)

text \<open>
  With a draw in \<open>[0, 1)\<close> and a positive total weight the walk itself stops at an
  element, so the fallback is only a guard.
\<close>

lemma weighted_walk_reaches:
  "0 \<le> r \<Longrightarrow> r < real_of_int (sum_list (map resolvedWeight endpoints)) \<Longrightarrow>
   \<exists>e. weighted_walk r endpoints = Some e"
proof (induction endpoints arbitrary: r)
  case Nil
  then show ?case by simp
next
  case (Cons endpoint rest)
  show ?case
  proof (cases "r - real_of_int (resolvedWeight endpoint) \<le> 0")
    case True
    then show ?thesis by (simp add: Let_def)
  next
    case False
    then have "0 \<le> r - real_of_int (resolvedWeight endpoint)" by simp
    moreover have "r - real_of_int (resolvedWeight endpoint)
        < real_of_int (sum_list (map resolvedWeight rest))"
      using Cons.prems(2) by simp
    ultimately obtain e where "weighted_walk (r - real_of_int (resolvedWeight endpoint)) rest = Some e"
      using Cons.IH by blast
    then show ?thesis using False by (simp add: Let_def)
  qed
qed

lemma foldl_weight_sum:
  "foldl (\<lambda>total ep. total + resolvedWeight ep) a endpoints
     = a + sum_list (map resolvedWeight endpoints)"
  by (induction endpoints arbitrary: a) auto

lemma selectWeighted_walks:
  assumes "0 \<le> u" "u < 1" "0 < sum_list (map resolvedWeight endpoints)"
  shows "selectWeighted endpoints u
     = weighted_walk (u * real_of_int (sum_list (map resolvedWeight endpoints))) endpoints"
proof -
  have "u * real_of_int (sum_list (map resolvedWeight endpoints))
      < real_of_int (sum_list (map resolvedWeight endpoints))"
    using assms(2,3) by simp
  moreover have "0 \<le> u * real_of_int (sum_list (map resolvedWeight endpoints))"
    using assms(1,3) by simp
  ultimately obtain e where
    "weighted_walk (u * real_of_int (sum_list (map resolvedWeight endpoints))) endpoints = Some e"
    using weighted_walk_reaches by blast
  then show ?thesis
    by (simp add: selectWeighted_def foldl_weight_sum Let_def)
qed

text \<open>
  Claim C10. \<open>selectWeighted\<close> is total on non-empty lists: for every endpoint list
  that is not empty and every draw (so in particular for weights \<open>\<ge> 1\<close> and
  \<open>r\<close> in \<open>[0, \<Sigma>weight)\<close>) it returns an element of the list, never \<open>undefined\<close>:
  either the walk stops at an element, or the fallback returns the last one.
\<close>

theorem C10_selectWeighted_total:
  assumes "endpoints \<noteq> []"
  shows "\<exists>e \<in> set endpoints. selectWeighted endpoints u = Some e"
proof (cases "weighted_walk (u * real_of_int (foldl (\<lambda>total ep. total + resolvedWeight ep) 0 endpoints)) endpoints")
  case None
  then have "selectWeighted endpoints u = Some (last endpoints)"
    using assms by (simp add: selectWeighted_def Let_def js_index_last)
  then show ?thesis using assms by auto
next
  case (Some e)
  then have "selectWeighted endpoints u = Some e"
    by (simp add: selectWeighted_def Let_def)
  then show ?thesis using weighted_walk_mem[OF Some] by auto
qed

text \<open>Weights 1 and 3: the draw 0.1 stops the walk at the first, the draw 0.9 at the second.\<close>

theorem C10_selectWeighted_total_witness:
  "[resolve (example_provider (Some weighted)) (example_endpoint 1 0 1 healthy),
    resolve (example_provider (Some weighted)) (example_endpoint 2 0 3 healthy)] \<noteq> []
   \<and> (\<exists>e \<in> set [resolve (example_provider (Some weighted)) (example_endpoint 1 0 1 healthy),
                  resolve (example_provider (Some weighted)) (example_endpoint 2 0 3 healthy)].
         selectWeighted
           [resolve (example_provider (Some weighted)) (example_endpoint 1 0 1 healthy),
            resolve (example_provider (Some weighted)) (example_endpoint 2 0 3 healthy)] 0.9 = Some e)
   \<and> map_option resolvedId (selectWeighted
           [resolve (example_provider (Some weighted)) (example_endpoint 1 0 1 healthy),
            resolve (example_provider (Some weighted)) (example_endpoint 2 0 3 healthy)] 0.1) = Some 1
   \<and> map_option resolvedId (selectWeighted
           [resolve (example_provider (Some weighted)) (example_endpoint 1 0 1 healthy),
            resolve (example_provider (Some weighted)) (example_endpoint 2 0 3 healthy)] 0.9) = Some 2"
proof -
  let ?es = "[resolve (example_provider (Some weighted)) (example_endpoint 1 0 1 healthy),
              resolve (example_provider (Some weighted)) (example_endpoint 2 0 3 healthy)]"
  have ne: "?es \<noteq> []" by simp
  have ex: "\<exists>e \<in> set ?es. selectWeighted ?es 0.9 = Some e"
    by (rule C10_selectWeighted_total [OF ne])
  have a: "map_option resolvedId (selectWeighted ?es 0.1) = Some 1"
    by (simp add: selectWeighted_def resolve_def example_endpoint_def Let_def)
  have b: "map_option resolvedId (selectWeighted ?es 0.9) = Some 2"
    by (simp add: selectWeighted_def resolve_def example_endpoint_def Let_def)
  show ?thesis using ne ex a b by blast
qed

section \<open>Cost multiplier\<close>

lemma foldl_mult_prod_list:
  "foldl (\<lambda>combined rule. combined * f rule) a xs = (a :: real) * prod_list (map f xs)"
  by (induction xs arbitrary: a) (auto simp: algebra_simps)

lemma set_matchedRules:
  "set (matchedRules pf rules context)
     = {rule \<in> set rules. ruleEnabled rule \<and> rule_matches pf context rule}"
  by (auto simp: matchedRules_def)

lemma final_no_match:
  "matchedRules pf rules context = [] \<Longrightarrow>
   finalMultiplier (calculateFinalMultiplier pf base rules context strategy) = base * 1"
  by (simp add: calculateFinalMultiplier_def)

lemma final_multiply:
  "finalMultiplier (calculateFinalMultiplier pf base rules context multiply)
     = base * prod_list (map multiplier (matchedRules pf rules context))"
  by (simp add: calculateFinalMultiplier_def Let_def foldl_mult_prod_list)

lemma final_highest:
  assumes "matchedRules pf rules context \<noteq> []"
  shows "\<exists>rule \<in> set (matchedRules pf rules context).
           finalMultiplier (calculateFinalMultiplier pf base rules context highest_priority)
             = base * multiplier rule
           \<and> (\<forall>other \<in> set (matchedRules pf rules context). rulePriority other \<le> rulePriority rule)"
proof -
  obtain e rest where er: "sort_key (\<lambda>rule. - rulePriority rule) (matchedRules pf rules context) = e # rest"
    and mem: "e \<in> set (matchedRules pf rules context)"
    and mx: "\<forall>x \<in> set (matchedRules pf rules context). - rulePriority e \<le> - rulePriority x"
    using sort_key_hd_min[OF assms, of "\<lambda>rule. - rulePriority rule"] by blast
  have "finalMultiplier (calculateFinalMultiplier pf base rules context highest_priority)
      = base * multiplier e"
    using assms by (simp add: calculateFinalMultiplier_def Let_def er)
  then show ?thesis using mem mx by auto
qed

lemma example_matched:
  assumes "model context = ''claude-3-5-sonnet''" "at_local_time pf context 23 0"
  shows "matchedRules pf [example_model_rule, example_night_rule] context
     = [example_model_rule, example_night_rule]"
  using assms
  by (simp add: matchedRules_def rule_matches_def example_model_rule_def example_night_rule_def
      isWithinTimePeriod_def at_local_time_def Let_def upper_def char_code_def
      is_line_terminator_def is_digit_def digit_value_def)


text \<open>
  Claim C7. \<open>calculateFinalMultiplier\<close> returns \<open>baseMultiplier \<times> combinedFactor\<close>. The
  matched rules are exactly the enabled rules that match the context. The factor is 1
  when none matches; under \<open>multiply\<close> it is the product of the multipliers of all
  matched rules; under \<open>highest_priority\<close> it is the multiplier of a matched rule whose
  priority is greatest among the matched ones. For the two example rules (model pattern
  \<open>claude-3-5-*\<close>, multiplier 1.5, priority 1; daily period 22:00 to 06:00, multiplier
  2.0, priority 2), model \<open>claude-3-5-sonnet\<close> and local time 23:00, \<open>multiply\<close> gives
  \<open>base \<times> 3.0\<close> and \<open>highest_priority\<close> gives \<open>base \<times> 2.0\<close>.
\<close>

theorem C7_final_multiplier:
  "(matchedRules pf rules context = []
      \<longrightarrow> finalMultiplier (calculateFinalMultiplier pf base rules context strategy) = base * 1)
   \<and> finalMultiplier (calculateFinalMultiplier pf base rules context multiply)
       = base * prod_list (map multiplier (matchedRules pf rules context))
   \<and> (matchedRules pf rules context \<noteq> []
      \<longrightarrow> (\<exists>rule \<in> set (matchedRules pf rules context).
             finalMultiplier (calculateFinalMultiplier pf base rules context highest_priority)
               = base * multiplier rule
             \<and> (\<forall>other \<in> set (matchedRules pf rules context).
                   rulePriority other \<le> rulePriority rule)))
   \<and> set (matchedRules pf rules context)
       = {rule \<in> set rules. ruleEnabled rule \<and> rule_matches pf context rule}
   \<and> (model context = ''claude-3-5-sonnet'' \<and> at_local_time pf context 23 0
      \<longrightarrow> finalMultiplier (calculateFinalMultiplier pf base
               [example_model_rule, example_night_rule] context multiply) = base * 3.0
        \<and> finalMultiplier (calculateFinalMultiplier pf base
               [example_model_rule, example_night_rule] context highest_priority) = base * 2.0)"
proof (intro conjI impI)
  assume "matchedRules pf rules context = []"
  then show "finalMultiplier (calculateFinalMultiplier pf base rules context strategy) = base * 1"
    by (rule final_no_match)
next
  show "finalMultiplier (calculateFinalMultiplier pf base rules context multiply)
       = base * prod_list (map multiplier (matchedRules pf rules context))"
    by (rule final_multiply)
next
  assume "matchedRules pf rules context \<noteq> []"
  then show "\<exists>rule \<in> set (matchedRules pf rules context).
             finalMultiplier (calculateFinalMultiplier pf base rules context highest_priority)
               = base * multiplier rule
             \<and> (\<forall>other \<in> set (matchedRules pf rules context).
                   rulePriority other \<le> rulePriority rule)"
    by (rule final_highest)
next
  show "set (matchedRules pf rules context)
       = {rule \<in> set rules. ruleEnabled rule \<and> rule_matches pf context rule}"
    by (rule set_matchedRules)
next
  assume a: "model context = ''claude-3-5-sonnet'' \<and> at_local_time pf context 23 0"
  then have m: "matchedRules pf [example_model_rule, example_night_rule] context
     = [example_model_rule, example_night_rule]"
    by (simp add: example_matched)
  show "finalMultiplier (calculateFinalMultiplier pf base
               [example_model_rule, example_night_rule] context multiply) = base * 3.0"
    unfolding final_multiply m by (simp add: example_model_rule_def example_night_rule_def)
  show "finalMultiplier (calculateFinalMultiplier pf base
               [example_model_rule, example_night_rule] context highest_priority) = base * 2.0"
    unfolding calculateFinalMultiplier_def m
    by (simp add: example_model_rule_def example_night_rule_def)
qed

text \<open>
  The example at 23:00 with base 4: 12 under \<open>multiply\<close>, 8 under \<open>highest_priority\<close>;
  at noon with model \<open>gpt-4o\<close> nothing matches and the result is the base.
\<close>

theorem C7_final_multiplier_witness:
  "model (example_context ''claude-3-5-sonnet'') = ''claude-3-5-sonnet''
   \<and> at_local_time (fixed_clock 23 0) (example_context ''claude-3-5-sonnet'') 23 0
   \<and> finalMultiplier (calculateFinalMultiplier (fixed_clock 23 0) 4
        [example_model_rule, example_night_rule] (example_context ''claude-3-5-sonnet'') multiply) = 12
   \<and> finalMultiplier (calculateFinalMultiplier (fixed_clock 23 0) 4
        [example_model_rule, example_night_rule] (example_context ''claude-3-5-sonnet'')
        highest_priority) = 8
   \<and> matchedRules (fixed_clock 12 0) [example_model_rule, example_night_rule]
        (example_context ''gpt-4o'') = []
   \<and> finalMultiplier (calculateFinalMultiplier (fixed_clock 12 0) 4
        [example_model_rule, example_night_rule] (example_context ''gpt-4o'') multiply) = 4"
proof -
  have m: "model (example_context ''claude-3-5-sonnet'') = ''claude-3-5-sonnet''"
    by (simp add: example_context_def)
  have t: "at_local_time (fixed_clock 23 0) (example_context ''claude-3-5-sonnet'') 23 0"
    by (simp add: at_local_time_def fixed_clock_def example_context_def)
  have none: "matchedRules (fixed_clock 12 0) [example_model_rule, example_night_rule]
        (example_context ''gpt-4o'') = []"
    by (simp add: matchedRules_def rule_matches_def example_model_rule_def example_night_rule_def
        isWithinTimePeriod_def fixed_clock_def example_context_def Let_def upper_def char_code_def
        is_line_terminator_def is_digit_def digit_value_def)
  show ?thesis
    using m t none
      C7_final_multiplier [of "fixed_clock 23 0" "[example_model_rule, example_night_rule]"
        "example_context ''claude-3-5-sonnet''" 4 multiply]
      C7_final_multiplier [of "fixed_clock 12 0" "[example_model_rule, example_night_rule]"
        "example_context ''gpt-4o''" 4 multiply]
    by simp
qed

section \<open>Cost limits: cache-miss detection\<close>

lemma retry_result:
  "fst (checkCostLimitsFromDatabase deps now ident ty costLimits client) = Inr r \<Longrightarrow>
   fst (fromDatabase_retry n deps now ident ty costLimits client) = Inr r"
  by (cases n) (auto split: prod.splits sum.splits)

lemma retry_error:
  "checkCostLimitsFromDatabase deps now ident ty costLimits client = (Inl e, client) \<Longrightarrow>
   fromDatabase_retry n deps now ident ty costLimits client = (Inl e, client)"
  by (induction n) auto

text \<open>
  The control flow of the probe itself: with a live string entry under the window key,
  a zero total is trusted and the loop goes on to the next limit.
\<close>

lemma zero_read_trusted_with_map_entry:
  assumes "amount limit = Some a" "0 < a" "period limit = Period5h"
    and "getCost5hRollingWindow st (cost_key ty ident ''5h_rolling'') now window5h = (0, st1)"
    and "store_exists now [cost_key ty ident ''5h_rolling''] st1 = 1"
  shows "fastPath deps now ident ty costLimits (limit # rest) st
     = fastPath deps now ident ty costLimits rest st1"
  using assms by simp

text \<open>
  The probe never sees a sorted set: it reads the map store only. So on every store
  whose map store has no entry under the window key (the scripts write that key with
  \<open>zadd\<close> only), a zero total of the 5-hour window sends the check to the database,
  whatever the window holds.
\<close>

lemma zero_read_falls_back_without_map_entry:
  assumes "amount limit = Some a" "0 < a" "period limit = Period5h"
    and "mapStore st (cost_key ty ident ''5h_rolling'') = None"
    and "fst (getCost5hRollingWindow st (cost_key ty ident ''5h_rolling'') now window5h) = 0"
  shows "fastPath deps now ident ty costLimits (limit # rest) st
     = fromDatabase_retry 2 deps now ident ty costLimits
         (Some (snd (getCost5hRollingWindow st (cost_key ty ident ''5h_rolling'') now window5h)))"
proof -
  have "mapStore (snd (getCost5hRollingWindow st (cost_key ty ident ''5h_rolling'') now window5h))
      = mapStore st"
    by (simp add: getCost5hRollingWindow_def store_zremrangebyscore_def split_beta)
  then have "store_exists now [cost_key ty ident ''5h_rolling'']
      (snd (getCost5hRollingWindow st (cost_key ty ident ''5h_rolling'') now window5h)) = 0"
    using assms(4) by (simp add: store_exists_def map_exists_def)
  then show ?thesis
    using assms(1,2,3,5) by (simp add: split_beta Let_def)
qed

lemma store_exists_ignores_zsets:
  "store_exists now keys (st\<lparr>zsetStore := z\<rparr>) = store_exists now keys st"
  by (simp add: store_exists_def)

lemma zero_window_store_eq:
  "zero_window_store =
     \<lparr>zsetStore = (\<lambda>key. None)(''key:1:cost_5h_rolling'' \<mapsto> [(CostRecord 1000 0, 1000)]),
      mapStore = (\<lambda>key. None), status = ready\<rparr>"
  by (simp add: zero_window_store_def script_defs key_defs)

lemma zero_window_read:
  "getCost5hRollingWindow zero_window_store ''key:1:cost_5h_rolling'' 2000 18000000
     = (0, zero_window_store)"
  by (simp add: zero_window_store_eq script_defs)

lemma zero_window_exists:
  "store_exists 2000 [''key:1:cost_5h_rolling''] zero_window_store = 0"
  by (simp add: zero_window_store_eq store_exists_def map_exists_def)

lemma zero_window_fastPath:
  "fastPath deps 2000 1 KeyEntity costLimits
     (\<lparr>amount = Some 10, period = Period5h, resetTime = None, resetMode = None\<rparr> # rest)
     zero_window_store
   = fromDatabase_retry 2 deps 2000 1 KeyEntity costLimits (Some zero_window_store)"
  by (simp add: key_defs window5h_def zero_window_read zero_window_exists)

lemma only_5h_costLimits:
  "\<exists>rest. costLimits_of deps (only_5h_limit a)
       = \<lparr>amount = Some a, period = Period5h, resetTime = None, resetMode = None\<rparr> # rest"
  by (simp add: costLimits_of_def only_5h_limit_def Let_def)

lemma zero_window_check:
  "checkCostLimits deps (Some zero_window_store) 2000 1 KeyEntity (only_5h_limit 10)
     = fromDatabase_retry 2 deps 2000 1 KeyEntity (costLimits_of deps (only_5h_limit 10))
         (Some zero_window_store)"
proof -
  have ready: "status zero_window_store = ready"
    by (simp add: zero_window_store_eq)
  obtain rest where limits: "costLimits_of deps (only_5h_limit 10)
      = \<lparr>amount = Some 10, period = Period5h, resetTime = None, resetMode = None\<rparr> # rest"
    using only_5h_costLimits by blast
  have "checkCostLimits deps (Some zero_window_store) 2000 1 KeyEntity (only_5h_limit 10)
      = fastPath deps 2000 1 KeyEntity (costLimits_of deps (only_5h_limit 10))
          (costLimits_of deps (only_5h_limit 10)) zero_window_store"
    by (simp add: checkCostLimits_def ready Let_def)
  also have "\<dots> = fromDatabase_retry 2 deps 2000 1 KeyEntity (costLimits_of deps (only_5h_limit 10))
         (Some zero_window_store)"
    by (simp only: limits zero_window_fastPath)
  finally show ?thesis .
qed

text \<open>
  Claim C3 at a failing input. The 5-hour window of key 1 exists in the cache (one
  record, of cost 0) and its total reads 0. The existence probe \<open>client.exists(key)\<close>
  looks only into the map store, where a sorted-set key is never present, and answers
  0; \<open>checkCostLimits\<close> therefore falls back to the durable store: it denies on the
  database total 100 against the limit 10, and it propagates a database failure.
\<close>

theorem C3_zero_window_falls_back:
  "store_zcard (cost_key KeyEntity 1 ''5h_rolling'') zero_window_store = 1
   \<and> fst (getCost5hRollingWindow zero_window_store (cost_key KeyEntity 1 ''5h_rolling'') 2000 window5h) = 0
   \<and> store_exists 2000 [cost_key KeyEntity 1 ''5h_rolling''] zero_window_store = 0
   \<and> fst (checkCostLimits (example_collaborators (Inr 100)) (Some zero_window_store) 2000 1 KeyEntity
           (only_5h_limit 10))
       = Inr \<lparr>cr_allowed = False, cr_reason = Some (CostLimitReached KeyEntity Period5h 100 10)\<rparr>
   \<and> fst (checkCostLimits (example_collaborators (Inl DbError)) (Some zero_window_store) 2000 1 KeyEntity
           (only_5h_limit 10))
       = Inl DbError"
proof -
  have key: "cost_key KeyEntity 1 ''5h_rolling'' = ''key:1:cost_5h_rolling''"
    by (simp add: key_defs)
  have card: "store_zcard ''key:1:cost_5h_rolling'' zero_window_store = 1"
    by (simp add: zero_window_store_eq store_zcard_def zcard_def)
  have total: "fst (getCost5hRollingWindow zero_window_store ''key:1:cost_5h_rolling'' 2000 window5h) = 0"
    by (simp add: window5h_def zero_window_read)
  obtain rest where limits: "costLimits_of (example_collaborators (Inr 100)) (only_5h_limit 10)
      = \<lparr>amount = Some 10, period = Period5h, resetTime = None, resetMode = None\<rparr> # rest"
    using only_5h_costLimits by blast
  have "fst (checkCostLimitsFromDatabase (example_collaborators (Inr 100)) 2000 1 KeyEntity
          (costLimits_of (example_collaborators (Inr 100)) (only_5h_limit 10)) (Some zero_window_store))
      = Inr (deny (CostLimitReached KeyEntity Period5h 100 10))"
    unfolding limits
    by (simp add: example_collaborators_def Let_def)
  then have denied: "fst (checkCostLimits (example_collaborators (Inr 100)) (Some zero_window_store)
          2000 1 KeyEntity (only_5h_limit 10))
       = Inr \<lparr>cr_allowed = False, cr_reason = Some (CostLimitReached KeyEntity Period5h 100 10)\<rparr>"
    by (simp add: zero_window_check retry_result deny_def)
  obtain rest' where limits': "costLimits_of (example_collaborators (Inl DbError)) (only_5h_limit 10)
      = \<lparr>amount = Some 10, period = Period5h, resetTime = None, resetMode = None\<rparr> # rest'"
    using only_5h_costLimits by blast
  have "checkCostLimitsFromDatabase (example_collaborators (Inl DbError)) 2000 1 KeyEntity
          (costLimits_of (example_collaborators (Inl DbError)) (only_5h_limit 10)) (Some zero_window_store)
      = (Inl DbError, Some zero_window_store)"
    unfolding limits'
    by (simp add: example_collaborators_def)
  then have failed: "fst (checkCostLimits (example_collaborators (Inl DbError)) (Some zero_window_store)
          2000 1 KeyEntity (only_5h_limit 10)) = Inl DbError"
    by (simp add: zero_window_check retry_error)
  show ?thesis
    using card total zero_window_exists denied failed by (simp add: key)
qed

section \<open>Session sets and their backstop TTL\<close>

lemma key7: "key_sessions_key 7 = ''key:7:active_sessions''"
  by (simp add: key_defs)

lemma trackSession_pipeline:
  "pipeline_exec 1000 (trackSession_commands 1000 ''s1'' 7) (empty_store :: (string, string) InMemoryStore)
     = ([(None, Some (IntReply 1)), (None, Some (IntReply 0)),
         (None, Some (IntReply 1)), (None, Some (IntReply 0))],
        \<lparr>zsetStore = (\<lambda>key. None)(''global:active_sessions'' \<mapsto> [(''s1'', 1000)],
                                      ''key:7:active_sessions'' \<mapsto> [(''s1'', 1000)]),
         mapStore = (\<lambda>key. None), status = ready\<rparr>)"
  by (simp add: trackSession_commands_def key7 global_sessions_key_def empty_store_def
      store_zadd_def zadd_def store_expire_def map_expire_def Let_def)

lemma trackSession_example:
  "trackSession (Some (empty_store :: (string, string) InMemoryStore)) 1000 ''s1'' 7
     = Some \<lparr>zsetStore = (\<lambda>key. None)(''global:active_sessions'' \<mapsto> [(''s1'', 1000)],
                                      ''key:7:active_sessions'' \<mapsto> [(''s1'', 1000)]),
         mapStore = (\<lambda>key. None), status = ready\<rparr>"
  unfolding trackSession_def
  by (simp add: trackSession_pipeline) (simp add: empty_store_def)

text \<open>No time-driven operation of the store touches a sorted set.\<close>

lemma store_expire_keeps_zsets: "zsetStore (snd (store_expire now key seconds st)) = zsetStore st"
  by (simp add: store_expire_def split_beta)

lemma store_cleanup_keeps_zsets: "zsetStore (store_cleanup now st) = zsetStore st"
  by (simp add: store_cleanup_def)

text \<open>
  On a live string entry \<open>expire\<close> does set a TTL: it answers 1, and after the TTL the
  entry no longer exists.
\<close>

lemma expire_sets_ttl_on_map_entries:
  assumes "mapStore st key = Some entry" "\<not> isExpired now entry"
  shows "fst (store_expire now key 3600 st) = 1"
    and "store_exists (now + 3600000) [key] (snd (store_expire now key 3600 st)) = 0"
  using assms
  by (simp_all add: store_expire_def map_expire_def store_exists_def map_exists_def isExpired_def)

text \<open>
  Claim C8 at a failing input. \<open>trackSession("s1", 7)\<close> at time 1000 on a fresh store:
  both \<open>expire(..., 3600)\<close> commands answer 0, because \<open>expire\<close> looks for the key in
  the map store and a sorted-set key is not there, so no TTL is set. At time 3,601,001,
  more than one hour later and after the periodic sweep, the global set still has
  cardinality 1 and still lists \<open>s1\<close>, and the key-scoped set still holds its score.
\<close>

theorem C8_session_sets_have_no_ttl:
  "map snd (fst (pipeline_exec 1000 (trackSession_commands 1000 ''s1'' 7)
        (empty_store :: (string, string) InMemoryStore)))
     = [Some (IntReply 1), Some (IntReply 0), Some (IntReply 1), Some (IntReply 0)]
   \<and> map_option (store_zcard global_sessions_key \<circ> store_cleanup 3601001)
        (trackSession (Some (empty_store :: (string, string) InMemoryStore)) 1000 ''s1'' 7) = Some 1
   \<and> map_option (store_zrange global_sessions_key 0 (-1) \<circ> store_cleanup 3601001)
        (trackSession (Some (empty_store :: (string, string) InMemoryStore)) 1000 ''s1'' 7)
       = Some [''s1'']
   \<and> map_option (store_zscore (key_sessions_key 7) ''s1'' \<circ> store_cleanup 3601001)
        (trackSession (Some (empty_store :: (string, string) InMemoryStore)) 1000 ''s1'' 7)
       = Some (Some 1000)"
  by (simp add: trackSession_pipeline trackSession_example key7 global_sessions_key_def
      store_cleanup_def store_zcard_def zcard_def store_zrange_def zrange_def js_slice_def
      store_zscore_def zscore_def Let_def)

section \<open>Unavailable store\<close>

lemma warm_cache_unavailable:
  "\<not> client_ready client \<Longrightarrow> warm_cache deps now ident ty limit current client = client"
  by (auto simp: client_ready_def warm_cache_def split: option.splits)

lemma fromDatabase_unavailable:
  "\<not> client_ready client \<Longrightarrow>
   checkCostLimitsFromDatabase deps now ident ty costLimits client
     = (database_verdict deps ident ty costLimits, client)"
  by (induction costLimits) (auto simp: warm_cache_unavailable Let_def split: option.splits sum.splits)

lemma retry_unavailable:
  "\<not> client_ready client \<Longrightarrow>
   fromDatabase_retry n deps now ident ty costLimits client
     = (database_verdict deps ident ty costLimits, client)"
  by (induction n) (auto simp: fromDatabase_unavailable split: sum.splits)

lemma checkCostLimits_unavailable:
  "\<not> client_ready client \<Longrightarrow>
   checkCostLimits deps client now ident ty limits
     = (database_verdict deps ident ty (costLimits_of deps limits), client)"
  by (auto simp: checkCostLimits_def Let_def retry_unavailable client_ready_def
      simp del: fromDatabase_retry.simps split: option.splits)

lemma checkSessionLimit_unavailable:
  "\<not> client_ready client \<Longrightarrow> checkSessionLimit client now ident ty limit = (allow, client)"
  by (simp add: checkSessionLimit_def getKeySessionCount_def getProviderSessionCount_def)

lemma checkAndTrackProviderSession_unavailable:
  "\<not> client_ready client \<Longrightarrow>
   checkAndTrackProviderSession client now pid sessionId limit
     = (\<lparr>ps_allowed = True, ps_count = 0, ps_tracked = False, ps_reason = None\<rparr>, client)"
  by (auto simp: checkAndTrackProviderSession_def client_ready_def split: option.splits)

lemma destroyed_store_unavailable:
  "\<not> client_ready (Some destroyed_store)"
  by (simp add: client_ready_def destroyed_store_def store_destroy_def)

lemma checkUserRPM_missing:
  "checkUserRPM None now rnd userId rpmLimit
     = (\<lparr>rpm_allowed = True, rpm_reason = None, rpm_current = None\<rparr>, None)"
  by (simp add: checkUserRPM_def)

lemma checkUserDailyCost_missing:
  "dc_allowed (fst (checkUserDailyCost deps None now userId dailyLimitUsd))
     = (case sumUserCostToday deps userId of
          Inl e \<Rightarrow> True
        | Inr currentCost \<Rightarrow> \<not> (0 < dailyLimitUsd \<and> dailyLimitUsd \<le> currentCost))"
  by (auto simp: checkUserDailyCost_def dailyCostVerdict_def Let_def split: sum.splits)

text \<open>
  The first pipeline of \<open>checkUserRPM\<close>: after the trim the count is the number of
  requests recorded during the last minute.
\<close>

lemma rpm_count:
  "fst (pipeline_exec now [ZRemRangeByScore key NegInfinity (Num b), ZCard key] st)
     = [(None, Some (IntReply (fst (store_zremrangebyscore key NegInfinity (Num b) st)))),
        (None, Some (IntReply (length (filter (\<lambda>(member, score). b < score)
                                         (entries_of key (zsetStore st))))))]"
  by (auto simp: store_zremrangebyscore_def store_zcard_def zcard_entries split_beta
      entries_of_zremrangebyscore in_range_def not_le intro!: arg_cong[where f=length] filter_cong)

lemma checkUserRPM_present:
  "rpm_allowed (fst (checkUserRPM (Some st) now rnd userId rpmLimit))
     = (rpmLimit \<le> 0
        \<or> int (length (filter (\<lambda>(member, score). now - 60000 < score)
                          (entries_of (rpm_key userId) (zsetStore st)))) < rpmLimit)"
  by (simp add: checkUserRPM_def Let_def split_beta rpm_count del: pipeline_exec.simps)

lemma checkUserDailyCost_present:
  "dc_allowed (fst (checkUserDailyCost deps (Some st) now userId dailyLimitUsd))
     = (dailyLimitUsd \<le> 0
        \<or> (case fst (store_get now (user_daily_cost_key userId) st) of
              Some currentCost \<Rightarrow> currentCost < dailyLimitUsd
            | None \<Rightarrow>
                (case sumUserCostToday deps userId of
                   Inl e \<Rightarrow> True
                 | Inr currentCost \<Rightarrow> currentCost < dailyLimitUsd)))"
  by (auto simp: checkUserDailyCost_def dailyCostVerdict_def Let_def split_beta
      split: option.splits sum.splits)

text \<open>
  One request recorded on the destroyed store: the store \<open>checkUserRPM\<close> leaves behind
  holds that request, and its status is still \<open>"end"\<close>.
\<close>

lemma checkUserRPM_on_destroyed_store:
  "checkUserRPM (Some (destroyed_store :: (rpm_member, real) InMemoryStore)) 2000 0.5 1 1
     = (\<lparr>rpm_allowed = True, rpm_reason = None, rpm_current = Some 1\<rparr>,
        Some \<lparr>zsetStore = (\<lambda>key. None)(rpm_key 1 \<mapsto> [(RpmRecord 2000 0.5, 2000)]),
              mapStore = (\<lambda>key. None), status = ended\<rparr>)"
  by (simp add: checkUserRPM_def destroyed_store_def store_destroy_def empty_store_def
      store_zremrangebyscore_def zremrangebyscore_def store_zcard_def zcard_def
      store_zadd_def zadd_def store_expire_def map_expire_def Let_def)

text \<open>
  Claim C4, as amended. When the store is unavailable (client missing or status not
  \<open>"ready"\<close>), \<open>checkSessionLimit\<close> and \<open>checkAndTrackProviderSession\<close> return
  \<open>allowed: true\<close> and leave the client as it is. \<open>checkCostLimits\<close> does not fail open:
  it degrades to the durable store and returns what the aggregates say, so it returns
  \<open>allowed: false\<close> when the aggregate of a positive limit reaches that limit (shown for
  the 5-hour limit, the first one checked), and a failed query is passed on to the
  caller. \<open>checkUserRPM\<close> and \<open>checkUserDailyCost\<close> test only for a missing client and
  never read the status. On a present store, whatever its status, \<open>checkUserRPM\<close>
  allows exactly when the limit is not positive or fewer requests than the limit were
  recorded in the store during the last minute, and \<open>checkUserDailyCost\<close> allows exactly
  when the limit is not positive or the total it reads is below the limit, the total
  being the cached one or, when none is cached, the durable store's total for today; it
  allows when that query fails. With the client missing, \<open>checkUserRPM\<close> returns
  \<open>allowed: true\<close>, and \<open>checkUserDailyCost\<close> decides on the durable store's total for
  today in the same way.
\<close>

theorem C4_unavailable_store:
  assumes "\<not> client_ready sessionClient"
    and "\<not> client_ready costClient"
  shows "checkSessionLimit sessionClient now ident ty sessionLimit = (allow, sessionClient)
       \<and> checkAndTrackProviderSession sessionClient now pid sessionId sessionLimit
           = (\<lparr>ps_allowed = True, ps_count = 0, ps_tracked = False, ps_reason = None\<rparr>, sessionClient)
       \<and> checkCostLimits deps costClient now ident ty limits
           = (database_verdict deps ident ty (costLimits_of deps limits), costClient)
       \<and> (limit_5h_usd limits = Some a \<and> 0 < a \<and> a \<le> current
            \<and> sumCostInTimeRange deps ty ident Period5h None None = Inr current
            \<longrightarrow> fst (checkCostLimits deps costClient now ident ty limits)
                  = Inr (deny (CostLimitReached ty Period5h current a)))
       \<and> (limit_5h_usd limits = Some a \<and> 0 < a
            \<and> sumCostInTimeRange deps ty ident Period5h None None = Inl e
            \<longrightarrow> fst (checkCostLimits deps costClient now ident ty limits) = Inl e)
       \<and> rpm_allowed (fst (checkUserRPM None now rnd userId rpmLimit))
       \<and> dc_allowed (fst (checkUserDailyCost deps None now userId dailyLimitUsd))
           = (case sumUserCostToday deps userId of
                Inl e \<Rightarrow> True
              | Inr currentCost \<Rightarrow> \<not> (0 < dailyLimitUsd \<and> dailyLimitUsd \<le> currentCost))
       \<and> rpm_allowed (fst (checkUserRPM (Some rpmStore) now rnd userId rpmLimit))
           = (rpmLimit \<le> 0
              \<or> int (length (filter (\<lambda>(member, score). now - 60000 < score)
                                (entries_of (rpm_key userId) (zsetStore rpmStore)))) < rpmLimit)
       \<and> dc_allowed (fst (checkUserDailyCost deps (Some dailyStore) now userId dailyLimitUsd))
           = (dailyLimitUsd \<le> 0
              \<or> (case fst (store_get now (user_daily_cost_key userId) dailyStore) of
                    Some currentCost \<Rightarrow> currentCost < dailyLimitUsd
                  | None \<Rightarrow>
                      (case sumUserCostToday deps userId of
                         Inl e \<Rightarrow> True
                       | Inr currentCost \<Rightarrow> currentCost < dailyLimitUsd)))"
proof -
  have cost: "checkCostLimits deps costClient now ident ty limits
           = (database_verdict deps ident ty (costLimits_of deps limits), costClient)"
    by (rule checkCostLimits_unavailable[OF assms(2)])
  have denied: "fst (checkCostLimits deps costClient now ident ty limits)
                  = Inr (deny (CostLimitReached ty Period5h current a))"
    if "limit_5h_usd limits = Some a \<and> 0 < a \<and> a \<le> current
            \<and> sumCostInTimeRange deps ty ident Period5h None None = Inr current"
    using that by (simp add: cost costLimits_of_def Let_def)
  have failed: "fst (checkCostLimits deps costClient now ident ty limits) = Inl e"
    if "limit_5h_usd limits = Some a \<and> 0 < a
            \<and> sumCostInTimeRange deps ty ident Period5h None None = Inl e"
    using that by (simp add: cost costLimits_of_def Let_def)
  note session = checkSessionLimit_unavailable[OF assms(1), of now ident ty sessionLimit]
  note provider = checkAndTrackProviderSession_unavailable[OF assms(1), of now pid sessionId sessionLimit]
  note rpm_none = checkUserRPM_missing[of now rnd userId rpmLimit]
  note daily_none = checkUserDailyCost_missing[of deps now userId dailyLimitUsd]
  note rpm_some = checkUserRPM_present[of rpmStore now rnd userId rpmLimit]
  note daily_some = checkUserDailyCost_present[of deps dailyStore now userId dailyLimitUsd]
  have rpm_none': "rpm_allowed (fst (checkUserRPM None now rnd userId rpmLimit))"
    by (simp add: rpm_none)
  show ?thesis
    using session provider cost denied failed rpm_none' daily_none rpm_some daily_some
    by blast
qed

text \<open>
  The store after \<open>destroy()\<close>: present, status \<open>"end"\<close>. The session checks allow. The
  cost check allows on a database total of 3 against the limit 10, denies on a total of
  100 and passes a failed query on. \<open>checkUserRPM\<close> with limit 1 denies the second
  request of a minute, and \<open>checkUserDailyCost\<close> with limit 10 denies on a total of 100;
  with no client at all both allow (the total being 3).
\<close>

theorem C4_unavailable_store_witness:
  "\<not> client_ready (Some (destroyed_store :: (string, real) InMemoryStore))
   \<and> \<not> client_ready (Some (destroyed_store :: (cost_member, real) InMemoryStore))
   \<and> cr_allowed (fst (checkSessionLimit
         (Some (destroyed_store :: (string, real) InMemoryStore)) 2000 1 KeyEntity 5))
   \<and> ps_allowed (fst (checkAndTrackProviderSession
         (Some (destroyed_store :: (string, real) InMemoryStore)) 2000 1 ''s1'' 5))
   \<and> fst (checkCostLimits (example_collaborators (Inr 3)) (Some destroyed_store) 2000 1 KeyEntity
            (only_5h_limit 10))
       = Inr allow
   \<and> fst (checkCostLimits (example_collaborators (Inr 100)) (Some destroyed_store) 2000 1 KeyEntity
            (only_5h_limit 10))
       = Inr (deny (CostLimitReached KeyEntity Period5h 100 10))
   \<and> fst (checkCostLimits (example_collaborators (Inl DbError)) (Some destroyed_store) 2000 1 KeyEntity
            (only_5h_limit 10))
       = Inl DbError
   \<and> rpm_allowed (fst (checkUserRPM (None :: (rpm_member, real) InMemoryStore option) 2000 0.5 1 60))
   \<and> dc_allowed (fst (checkUserDailyCost (example_collaborators (Inr 3))
         (None :: (string, real) InMemoryStore option) 2000 1 10))
   \<and> \<not> rpm_allowed (fst (checkUserRPM
         (snd (checkUserRPM (Some (destroyed_store :: (rpm_member, real) InMemoryStore)) 2000 0.5 1 1))
         2001 0.7 1 1))
   \<and> \<not> dc_allowed (fst (checkUserDailyCost (example_collaborators (Inr 100))
         (Some (destroyed_store :: (string, real) InMemoryStore)) 2000 1 10))"
proof -
  have a: "\<not> client_ready (Some (destroyed_store :: (string, real) InMemoryStore))"
    by (rule destroyed_store_unavailable)
  have b: "\<not> client_ready (Some (destroyed_store :: (cost_member, real) InMemoryStore))"
    by (rule destroyed_store_unavailable)
  have v: "database_verdict (example_collaborators (Inr 3)) 1 KeyEntity
             (costLimits_of (example_collaborators (Inr 3)) (only_5h_limit 10)) = Inr allow"
    by (simp add: costLimits_of_def only_5h_limit_def example_collaborators_def Let_def)
  note low = C4_unavailable_store [OF a b, where now = 2000 and ident = 1 and ty = KeyEntity
        and sessionLimit = 5 and pid = 1 and sessionId = "''s1''"
        and deps = "example_collaborators (Inr 3)" and limits = "only_5h_limit 10"
        and a = 10 and current = 3 and e = DbError
        and rnd = "0.5" and userId = 1 and rpmLimit = 60 and dailyLimitUsd = 10
        and rpmStore = "destroyed_store :: (rpm_member, real) InMemoryStore"
        and dailyStore = "destroyed_store :: (string, real) InMemoryStore"]
  note high = C4_unavailable_store [OF a b, where now = 2000 and ident = 1 and ty = KeyEntity
        and sessionLimit = 5 and pid = 1 and sessionId = "''s1''"
        and deps = "example_collaborators (Inr 100)" and limits = "only_5h_limit 10"
        and a = 10 and current = 100 and e = DbError
        and rnd = "0.5" and userId = 1 and rpmLimit = 60 and dailyLimitUsd = 10
        and rpmStore = "destroyed_store :: (rpm_member, real) InMemoryStore"
        and dailyStore = "destroyed_store :: (string, real) InMemoryStore"]
  note broken = C4_unavailable_store [OF a b, where now = 2000 and ident = 1 and ty = KeyEntity
        and sessionLimit = 5 and pid = 1 and sessionId = "''s1''"
        and deps = "example_collaborators (Inl DbError)" and limits = "only_5h_limit 10"
        and a = 10 and current = 100 and e = DbError
        and rnd = "0.5" and userId = 1 and rpmLimit = 60 and dailyLimitUsd = 10
        and rpmStore = "destroyed_store :: (rpm_member, real) InMemoryStore"
        and dailyStore = "destroyed_store :: (string, real) InMemoryStore"]
  note second = C4_unavailable_store [OF a b, where now = 2001 and ident = 1 and ty = KeyEntity
        and sessionLimit = 5 and pid = 1 and sessionId = "''s1''"
        and deps = "example_collaborators (Inr 3)" and limits = "only_5h_limit 10"
        and a = 10 and current = 3 and e = DbError
        and rnd = "0.7" and userId = 1 and rpmLimit = 1 and dailyLimitUsd = 10
        and rpmStore = "\<lparr>zsetStore = (\<lambda>key. None)(rpm_key 1 \<mapsto> [(RpmRecord 2000 0.5, 2000)]),
              mapStore = (\<lambda>key. None), status = ended\<rparr> :: (rpm_member, real) InMemoryStore"
        and dailyStore = "destroyed_store :: (string, real) InMemoryStore"]
  have s1: "cr_allowed (fst (checkSessionLimit
         (Some (destroyed_store :: (string, real) InMemoryStore)) 2000 1 KeyEntity 5))"
    using low[THEN conjunct1] by (simp add: allow_def)
  have s2: "ps_allowed (fst (checkAndTrackProviderSession
         (Some (destroyed_store :: (string, real) InMemoryStore)) 2000 1 ''s1'' 5))"
    using low[THEN conjunct2, THEN conjunct1] by simp
  have s3: "fst (checkCostLimits (example_collaborators (Inr 3)) (Some destroyed_store) 2000 1 KeyEntity
            (only_5h_limit 10)) = Inr allow"
    using low[THEN conjunct2, THEN conjunct2, THEN conjunct1] by (simp add: v)
  have s4: "fst (checkCostLimits (example_collaborators (Inr 100)) (Some destroyed_store) 2000 1 KeyEntity
            (only_5h_limit 10)) = Inr (deny (CostLimitReached KeyEntity Period5h 100 10))"
    using high[THEN conjunct2, THEN conjunct2, THEN conjunct2, THEN conjunct1]
    by (simp add: only_5h_limit_def example_collaborators_def)
  have s5: "fst (checkCostLimits (example_collaborators (Inl DbError)) (Some destroyed_store) 2000 1
            KeyEntity (only_5h_limit 10)) = Inl DbError"
    using broken[THEN conjunct2, THEN conjunct2, THEN conjunct2, THEN conjunct2, THEN conjunct1]
    by (simp add: only_5h_limit_def example_collaborators_def)
  have s6: "rpm_allowed (fst (checkUserRPM (None :: (rpm_member, real) InMemoryStore option) 2000 0.5 1 60))"
    using low[THEN conjunct2, THEN conjunct2, THEN conjunct2, THEN conjunct2, THEN conjunct2,
        THEN conjunct1] .
  have s7: "dc_allowed (fst (checkUserDailyCost (example_collaborators (Inr 3))
         (None :: (string, real) InMemoryStore option) 2000 1 10))"
    using low[THEN conjunct2, THEN conjunct2, THEN conjunct2, THEN conjunct2, THEN conjunct2,
        THEN conjunct2, THEN conjunct1]
    by (simp add: example_collaborators_def)
  have s8: "\<not> rpm_allowed (fst (checkUserRPM
         (snd (checkUserRPM (Some (destroyed_store :: (rpm_member, real) InMemoryStore)) 2000 0.5 1 1))
         2001 0.7 1 1))"
    unfolding checkUserRPM_on_destroyed_store snd_conv
    using second[THEN conjunct2, THEN conjunct2, THEN conjunct2, THEN conjunct2, THEN conjunct2,
        THEN conjunct2, THEN conjunct2, THEN conjunct1]
    by (simp add: entries_of_def)
  have s9: "\<not> dc_allowed (fst (checkUserDailyCost (example_collaborators (Inr 100))
         (Some (destroyed_store :: (string, real) InMemoryStore)) 2000 1 10))"
    using high[THEN conjunct2, THEN conjunct2, THEN conjunct2, THEN conjunct2, THEN conjunct2,
        THEN conjunct2, THEN conjunct2, THEN conjunct2]
    by (simp add: example_collaborators_def destroyed_store_def store_destroy_def empty_store_def
        store_get_def map_get_def)
  show ?thesis
    using a b s1 s2 s3 s4 s5 s6 s7 s8 s9 by blast
qed

text \<open>
  The claim as stated fails on the store it can actually meet, the singleton after
  \<open>destroy()\<close> (present, status \<open>"end"\<close>). With a 5-hour limit of 10 and a database total
  of 100, \<open>checkCostLimits\<close> returns \<open>allowed: false\<close>, and when the database query fails
  the failure reaches the caller. \<open>checkUserRPM\<close> with limit 1 allows and records the
  first request and returns \<open>allowed: false\<close> for the second one a millisecond later.
  \<open>checkUserDailyCost\<close> with limit 10 returns \<open>allowed: false\<close> on a database total of
  100.
\<close>

theorem C4_fail_open_counterexample:
  "\<not> client_ready (Some (destroyed_store :: (cost_member, real) InMemoryStore))
   \<and> fst (checkCostLimits (example_collaborators (Inr 100)) (Some destroyed_store) 2000 1 KeyEntity
            (only_5h_limit 10))
       = Inr \<lparr>cr_allowed = False, cr_reason = Some (CostLimitReached KeyEntity Period5h 100 10)\<rparr>
   \<and> fst (checkCostLimits (example_collaborators (Inl DbError)) (Some destroyed_store) 2000 1 KeyEntity
            (only_5h_limit 10))
       = Inl DbError
   \<and> \<not> client_ready (Some (destroyed_store :: (rpm_member, real) InMemoryStore))
   \<and> fst (checkUserRPM (Some (destroyed_store :: (rpm_member, real) InMemoryStore)) 2000 0.5 1 1)
       = \<lparr>rpm_allowed = True, rpm_reason = None, rpm_current = Some 1\<rparr>
   \<and> fst (checkUserRPM
         (snd (checkUserRPM (Some (destroyed_store :: (rpm_member, real) InMemoryStore)) 2000 0.5 1 1))
         2001 0.7 1 1)
       = \<lparr>rpm_allowed = False, rpm_reason = Some (UserRPMReached 1 1), rpm_current = Some 1\<rparr>
   \<and> \<not> client_ready (Some (destroyed_store :: (string, real) InMemoryStore))
   \<and> fst (checkUserDailyCost (example_collaborators (Inr 100))
         (Some (destroyed_store :: (string, real) InMemoryStore)) 2000 1 10)
       = \<lparr>dc_allowed = False, dc_reason = Some (UserDailyCostReached 100 10), dc_current = Some 100\<rparr>"
proof -
  have b: "\<not> client_ready (Some (destroyed_store :: (cost_member, real) InMemoryStore))"
    by (rule destroyed_store_unavailable)
  have c1: "fst (checkCostLimits (example_collaborators (Inr 100)) (Some destroyed_store) 2000 1
            KeyEntity (only_5h_limit 10))
       = Inr \<lparr>cr_allowed = False, cr_reason = Some (CostLimitReached KeyEntity Period5h 100 10)\<rparr>"
    by (simp add: checkCostLimits_unavailable[OF b] costLimits_of_def only_5h_limit_def
        example_collaborators_def deny_def Let_def)
  have c2: "fst (checkCostLimits (example_collaborators (Inl DbError)) (Some destroyed_store) 2000 1
            KeyEntity (only_5h_limit 10)) = Inl DbError"
    by (simp add: checkCostLimits_unavailable[OF b] costLimits_of_def only_5h_limit_def
        example_collaborators_def Let_def)
  have r1: "fst (checkUserRPM (Some (destroyed_store :: (rpm_member, real) InMemoryStore)) 2000 0.5 1 1)
       = \<lparr>rpm_allowed = True, rpm_reason = None, rpm_current = Some 1\<rparr>"
    by (simp only: checkUserRPM_on_destroyed_store fst_conv)
  have r2: "fst (checkUserRPM
         (snd (checkUserRPM (Some (destroyed_store :: (rpm_member, real) InMemoryStore)) 2000 0.5 1 1))
         2001 0.7 1 1)
       = \<lparr>rpm_allowed = False, rpm_reason = Some (UserRPMReached 1 1), rpm_current = Some 1\<rparr>"
    unfolding checkUserRPM_on_destroyed_store snd_conv
    by (simp add: checkUserRPM_def
        store_zremrangebyscore_def zremrangebyscore_def store_zcard_def zcard_def in_range_def
        Let_def)
  have d: "fst (checkUserDailyCost (example_collaborators (Inr 100))
         (Some (destroyed_store :: (string, real) InMemoryStore)) 2000 1 10)
       = \<lparr>dc_allowed = False, dc_reason = Some (UserDailyCostReached 100 10), dc_current = Some 100\<rparr>"
    by (simp add: checkUserDailyCost_def dailyCostVerdict_def example_collaborators_def
        destroyed_store_def store_destroy_def empty_store_def store_get_def map_get_def Let_def)
  have r0: "\<not> client_ready (Some (destroyed_store :: (rpm_member, real) InMemoryStore))"
    by (rule destroyed_store_unavailable)
  have d0: "\<not> client_ready (Some (destroyed_store :: (string, real) InMemoryStore))"
    by (rule destroyed_store_unavailable)
  show ?thesis
    by (intro conjI b c1 c2 r0 r1 r2 d0 d)
qed

end
